theory Spec2Isabelle
  imports Complex_Main "HOL-Library.Product_Lexorder" "HOL-Library.Multiset"
begin

section \<open>Python values used by the vendor finder\<close>

text \<open>
  Scores are Python floats built from the decimal literals 0.1, 0.2 and 0.3. They are
  modelled as exact rationals; \<open>round2\<close> is \<^verbatim>\<open>round(x, 2)\<close> (round half to even).
  A float sum that the code does not round again (the soft-signal bonus added to the
  rounded base score) can differ from the rational by one unit in the last place.
  Strings are byte strings; \<open>lower\<close>, \<open>strip\<close> and \<open>str_title\<close> act on ASCII letters
  and ASCII white space only, and a digit is an ASCII digit.
\<close>

definition round2 :: "rat \<Rightarrow> rat" where
  "round2 x =
     (let y = x * 100; f = \<lfloor>y\<rfloor>; d = y - of_int f
      in (if d < 1 / 2 then of_int f
          else if 1 / 2 < d then of_int (f + 1)
          else if even f then of_int f else of_int (f + 1)) / 100)"

definition lower_char :: "char \<Rightarrow> char" where
  "lower_char c =
     (case map_of (zip ''ABCDEFGHIJKLMNOPQRSTUVWXYZ'' ''abcdefghijklmnopqrstuvwxyz'') c of
        None \<Rightarrow> c
      | Some l \<Rightarrow> l)"

definition upper_char :: "char \<Rightarrow> char" where
  "upper_char c =
     (case map_of (zip ''abcdefghijklmnopqrstuvwxyz'' ''ABCDEFGHIJKLMNOPQRSTUVWXYZ'') c of
        None \<Rightarrow> c
      | Some u \<Rightarrow> u)"

definition is_alpha :: "char \<Rightarrow> bool" where
  "is_alpha c \<longleftrightarrow>
     c \<in> set ''abcdefghijklmnopqrstuvwxyzABCDEFGHIJKLMNOPQRSTUVWXYZ''"

definition lower :: "string \<Rightarrow> string" where
  "lower s = map lower_char s"

text \<open>\<^verbatim>\<open>s.startswith(p)\<close> and \<^verbatim>\<open>needle in haystack\<close> on strings.\<close>

definition startswith :: "string \<Rightarrow> string \<Rightarrow> bool" where
  "startswith s p \<longleftrightarrow> take (length p) s = p"

fun py_in :: "string \<Rightarrow> string \<Rightarrow> bool" where
  "py_in needle [] = (needle = [])"
| "py_in needle (c # cs) = (startswith (c # cs) needle \<or> py_in needle cs)"

definition is_space :: "char \<Rightarrow> bool" where
  "is_space c \<longleftrightarrow> (of_char c :: nat) \<in> {9, 10, 11, 12, 13, 28, 29, 30, 31, 32}"

definition strip :: "string \<Rightarrow> string" where
  "strip s = rev (dropWhile is_space (rev (dropWhile is_space s)))"

text \<open>\<^verbatim>\<open>s.title()\<close>: a letter that follows a non-letter is upper-cased, any other
  letter is lower-cased.\<close>

fun title_from :: "bool \<Rightarrow> string \<Rightarrow> string" where
  "title_from prev [] = []"
| "title_from prev (c # cs) =
     (if is_alpha c
      then (if prev then lower_char c else upper_char c) # title_from True cs
      else c # title_from False cs)"

definition str_title :: "string \<Rightarrow> string" where
  "str_title s = title_from False s"

text \<open>\<^verbatim>\<open>xs.sort(key=key, reverse=True)\<close>: Python's sort is stable, also with
  \<^verbatim>\<open>reverse=True\<close>: elements with equal keys keep their order. It is modelled by a
  stable insertion sort into descending key order.\<close>

fun insort_desc :: "('a \<Rightarrow> 'k::linorder) \<Rightarrow> 'a \<Rightarrow> 'a list \<Rightarrow> 'a list" where
  "insort_desc key x [] = [x]"
| "insort_desc key x (y # ys) =
     (if key y \<le> key x then x # y # ys else y # insort_desc key x ys)"

definition sort_desc :: "('a \<Rightarrow> 'k::linorder) \<Rightarrow> 'a list \<Rightarrow> 'a list" where
  "sort_desc key xs = foldr (insort_desc key) xs []"

section \<open>search\_engine.py\<close>

text \<open>
  A search result is the dict built by \<^verbatim>\<open>search_google\<close> and \<^verbatim>\<open>search_bing\<close>;
  \<^verbatim>\<open>search_vendors\<close> adds the key \<^verbatim>\<open>relevance_score\<close> to the results it keeps.
\<close>

record hit =
  title :: string
  link :: string
  snippet :: string
  source :: string
  query_used :: string

record scored_hit = hit +
  relevance_score :: rat

text \<open>One item of a provider's JSON answer, after the \<^verbatim>\<open>.get(key, "")\<close> defaults.\<close>

record item =
  item_title :: string
  item_link :: string
  item_snippet :: string

text \<open>The keyword-search capability: the items a provider answers for a query, or
  \<open>None\<close> when the request raises \<^verbatim>\<open>RequestException\<close>. Rate limiting only delays
  the call and is left out.\<close>

record search_api =
  google_items :: "string \<Rightarrow> item list option"
  bing_items :: "string \<Rightarrow> item list option"

record search_engine =
  google_api_key :: string
  google_engine_id :: string
  bing_api_key :: string

definition site_map :: "string \<rightharpoonup> string" where
  "site_map = map_of
     [(''instagram'', ''site:instagram.com''),
      (''twitter'', ''site:twitter.com''),
      (''x'', ''site:twitter.com''),
      (''facebook'', ''site:facebook.com''),
      (''tiktok'', ''site:tiktok.com'')]"

definition build_queries :: "string \<Rightarrow> string \<Rightarrow> string \<Rightarrow> string list" where
  "build_queries service location platform =
     (let site = (case site_map (lower platform) of None \<Rightarrow> [] | Some s \<Rightarrow> s);
          base_queries =
            [site @ '' \"'' @ service @ '' vendor '' @ location @ ''\"'',
             site @ '' \"'' @ service @ '' in '' @ location @ ''\"'',
             site @ '' \"'' @ service @ ''\" \"'' @ location @ ''\"'',
             site @ '' \"'' @ service @ ''\" whatsapp \"'' @ location @ ''\"'']
      in map strip (filter (\<lambda>q. strip q \<noteq> []) base_queries))"

definition search_google :: "search_api \<Rightarrow> search_engine \<Rightarrow> string \<Rightarrow> hit list" where
  "search_google api se query =
     (if google_api_key se = [] \<or> google_engine_id se = [] then []
      else case google_items api query of
             None \<Rightarrow> []
           | Some items \<Rightarrow>
               map (\<lambda>it. \<lparr>title = item_title it, link = item_link it,
                          snippet = item_snippet it, source = ''google'',
                          query_used = query\<rparr>) items)"

definition search_bing :: "search_api \<Rightarrow> search_engine \<Rightarrow> string \<Rightarrow> hit list" where
  "search_bing api se query =
     (if bing_api_key se = [] then []
      else case bing_items api query of
             None \<Rightarrow> []
           | Some items \<Rightarrow>
               map (\<lambda>it. \<lparr>title = item_title it, link = item_link it,
                          snippet = item_snippet it, source = ''bing'',
                          query_used = query\<rparr>) items)"

text \<open>\<^verbatim>\<open>raw_results\<close>: for each query, Google's results and then Bing's.\<close>

definition raw_results :: "search_api \<Rightarrow> search_engine \<Rightarrow> string list \<Rightarrow> hit list" where
  "raw_results api se queries =
     concat (map (\<lambda>query. search_google api se query @ search_bing api se query) queries)"

text \<open>The "lightweight relevance signal" of one kept result.\<close>

definition relevance :: "string \<Rightarrow> string \<Rightarrow> string \<Rightarrow> hit \<Rightarrow> rat" where
  "relevance service location platform result =
     (let s0 = 0;
          title' = lower (title result);
          snippet' = lower (snippet result);
          s1 = (if py_in (lower service) title' then s0 + 3 / 10 else s0);
          s2 = (if py_in (lower location) snippet' then s1 + 3 / 10 else s1);
          s3 = (if py_in ''whatsapp'' snippet' \<or> py_in ''wa.me'' snippet'
                then s2 + 2 / 10 else s2);
          s4 = (if py_in (lower platform) (lower (query_used result))
                then s3 + 2 / 10 else s3)
      in round2 (min s4 1))"

text \<open>The deduplication loop over \<^verbatim>\<open>raw_results\<close>, with the set \<^verbatim>\<open>seen_urls\<close>.\<close>

fun unique_results ::
  "string \<Rightarrow> string \<Rightarrow> string \<Rightarrow> string set \<Rightarrow> hit list \<Rightarrow> scored_hit list" where
  "unique_results service location platform seen_urls [] = []"
| "unique_results service location platform seen_urls (result # rest) =
     (let url = link result
      in if url = [] \<or> url \<in> seen_urls
         then unique_results service location platform seen_urls rest
         else hit.extend result
                (scored_hit.fields (relevance service location platform result))
              # unique_results service location platform (insert url seen_urls) rest)"

definition search_vendors ::
  "search_api \<Rightarrow> search_engine \<Rightarrow> string \<Rightarrow> string \<Rightarrow> string \<Rightarrow> scored_hit list" where
  "search_vendors api se service location platform =
     (let queries = build_queries service location platform;
          raw = raw_results api se queries
      in sort_desc relevance_score (unique_results service location platform {} raw))"

section \<open>vendor\_extractor.py\<close>

text \<open>
  The regular expressions of the extractor. \<^verbatim>\<open>re.findall(pattern, text, re.IGNORECASE)\<close>
  is a library call and is a parameter of the model (\<open>re_findall\<close>); each pattern has at
  most one group, so every match is one string.
  \<^item> \<open>WaMeLink\<close>: \<^verbatim>\<open>wa\.me[/\+]?(\d+)\<close>
  \<^item> \<open>WhatsappPrefixed\<close>: \<^verbatim>\<open>whatsapp[:\s]*([\+\d][\d\s\-]{9,})\<close>
  \<^item> \<open>NigerianNumber\<close>: \<^verbatim>\<open>(\+?234[\s\-]?\d{3}[\s\-]?\d{3}[\s\-]?\d{4})\<close>
  \<^item> \<open>GenericNumber\<close>: \<^verbatim>\<open>(\+?\d[\d\s\-]{9,})\<close>
  \<^item> \<open>InstagramUrl\<close>: \<^verbatim>\<open>https?://(www\.)?instagram\.com/[\w\.]+/?\<close>
  \<^item> \<open>InstagramDomain\<close>: \<^verbatim>\<open>instagram\.com/[\w\.]+/?\<close>
  \<^item> \<open>AtHandle\<close>: \<^verbatim>\<open>@[\w\.]{3,}\<close>
\<close>

datatype pattern =
  WaMeLink | WhatsappPrefixed | NigerianNumber | GenericNumber
| InstagramUrl | InstagramDomain | AtHandle

text \<open>The page-fetch capability with the HTML library: \<open>http_get\<close> is the body of the
  response, \<open>None\<close> when \<^verbatim>\<open>requests.get\<close> or \<^verbatim>\<open>raise_for_status\<close> raises;
  \<open>soup_get_text\<close> and \<open>soup_title\<close> are BeautifulSoup's \<^verbatim>\<open>get_text(separator=" ")\<close>
  and the stripped text of the \<^verbatim>\<open>title\<close> element, if there is one.\<close>

record web_api =
  re_findall :: "pattern \<Rightarrow> string \<Rightarrow> string list"
  http_get :: "string \<Rightarrow> string option"
  soup_get_text :: "string \<Rightarrow> string"
  soup_title :: "string \<Rightarrow> string option"

text \<open>One place of a Google Maps \<^verbatim>\<open>places\<close> answer, and the Maps capability:
  \<open>None\<close> when the call raises; \<open>reverse_geocode\<close> answers the
  \<^verbatim>\<open>formatted_address\<close> of each result.\<close>

record place =
  formatted_address :: "string option"
  geometry_lat :: "rat option"
  geometry_lng :: "rat option"
  place_rating :: "rat option"
  place_place_id :: "string option"

record maps_api =
  places :: "string \<Rightarrow> place list option"
  reverse_geocode :: "rat \<times> rat \<Rightarrow> string option list option"

record maps_data =
  address :: "string option"
  latitude :: "rat option"
  longitude :: "rat option"
  rating :: "rat option"
  place_id :: "string option"
  maps_source :: string

text \<open>The vendor dict. \<open>id_source\<close> is the key \<^verbatim>\<open>source\<close> of \<^verbatim>\<open>identity\<close> and
  \<open>loc_text\<close> the key \<^verbatim>\<open>text\<close> of \<^verbatim>\<open>location\<close>.\<close>

record identity =
  name :: string
  id_source :: string
  url :: string

record contacts =
  whatsapp :: "string list"

record social =
  instagram :: "string list"

record location_info =
  loc_text :: "string option"
  resolved :: "string option"
  google_maps :: "maps_data option"

record vendor =
  identity :: identity
  contacts :: contacts
  social :: social
  location :: location_info
  confidence_score :: rat
  evidence :: "string list"

text \<open>What \<^verbatim>\<open>extract_vendor_info\<close> returns: the dict of a discarded result has only
  \<^verbatim>\<open>confidence_score\<close>, \<^verbatim>\<open>discarded\<close> and (for a job post) \<^verbatim>\<open>reason\<close>.\<close>

datatype extraction =
  Discarded rat "string option"
| Kept vendor

text \<open>A \<^verbatim>\<open>VendorExtractor\<close> instance: \<^verbatim>\<open>__init__\<close> sets the one attribute
  \<^verbatim>\<open>gmaps_client\<close>, to a client (\<open>True\<close>) or to \<^verbatim>\<open>None\<close> (\<open>False\<close>). Reading any
  other attribute raises \<^verbatim>\<open>AttributeError\<close>.\<close>

record vendor_extractor =
  gmaps_client :: bool

definition vendor_extractor_attributes :: "string list" where
  "vendor_extractor_attributes = [''gmaps_client'']"

definition JOB_KEYWORDS :: "string list" where
  "JOB_KEYWORDS =
     [''hiring'', ''salary'', ''vacancy'', ''apply'', ''job'', ''career'', ''position'',
      ''recruiting'', ''opening'', ''employment'']"

definition py_any :: "bool list \<Rightarrow> bool" where
  "py_any bs = list_ex (\<lambda>b. b) bs"

definition truthy_str :: "string option \<Rightarrow> bool" where
  "truthy_str v = (case v of None \<Rightarrow> False | Some s \<Rightarrow> s \<noteq> [])"

definition truthy_num :: "rat option \<Rightarrow> bool" where
  "truthy_num v = (case v of None \<Rightarrow> False | Some x \<Rightarrow> x \<noteq> 0)"

definition clean_number :: "string \<Rightarrow> string" where
  "clean_number m = filter (\<lambda>c. c \<in> set ''0123456789+'') m"

text \<open>\<^verbatim>\<open>list(set(...))\<close> keeps one copy of each element in an order Python does not
  fix; the model keeps the order of \<open>remdups\<close>.\<close>

definition extract_whatsapp_numbers :: "web_api \<Rightarrow> string \<Rightarrow> string list" where
  "extract_whatsapp_numbers web txt =
     (let patterns = [WaMeLink, WhatsappPrefixed, NigerianNumber, GenericNumber]
      in remdups (concat (map (\<lambda>p.
           filter (\<lambda>cleaned. 10 \<le> length cleaned)
             (map clean_number (re_findall web p txt))) patterns)))"

definition extract_instagram_links :: "web_api \<Rightarrow> string \<Rightarrow> string list" where
  "extract_instagram_links web txt =
     (let patterns = [InstagramUrl, InstagramDomain, AtHandle]
      in remdups (concat (map (\<lambda>p.
           map (\<lambda>m. if startswith m ''@'' then ''https://instagram.com/'' @ drop 1 m
                     else if startswith m ''http'' then m
                     else ''https://'' @ m)
             (re_findall web p txt)) patterns)))"

definition common_locations :: "string list" where
  "common_locations =
     [''lagos'', ''abuja'', ''ibadan'', ''port harcourt'', ''ph'',
      ''lekki'', ''ikeja'', ''ajah'', ''yaba'', ''surulere'',
      ''ikorodu'', ''benin'', ''asaba'', ''uyo'', ''owerri'']"

definition infer_location_from_text :: "string \<Rightarrow> string \<Rightarrow> string option" where
  "infer_location_from_text txt fallback_location =
     (let lowered = lower txt
      in case find (\<lambda>loc. py_in loc lowered) common_locations of
           Some loc \<Rightarrow> Some (str_title loc)
         | None \<Rightarrow> (if fallback_location \<noteq> [] then Some fallback_location else None))"

definition enrich_with_google_maps ::
  "maps_api \<Rightarrow> vendor_extractor \<Rightarrow> string \<Rightarrow> string \<Rightarrow> maps_data option" where
  "enrich_with_google_maps maps self business_name loc =
     (if \<not> gmaps_client self \<or> business_name = [] then None
      else case places maps (business_name @ '' '' @ loc) of
             None \<Rightarrow> None
           | Some [] \<Rightarrow> None
           | Some (p # _) \<Rightarrow>
               Some \<lparr>address = formatted_address p, latitude = geometry_lat p,
                     longitude = geometry_lng p, rating = place_rating p,
                     place_id = place_place_id p, maps_source = ''google_maps''\<rparr>)"

definition fetch_page_content :: "web_api \<Rightarrow> string \<Rightarrow> string option" where
  "fetch_page_content web u = http_get web u"

definition calculate_confidence_score :: "vendor \<Rightarrow> rat" where
  "calculate_confidence_score v =
     (let s0 = 0;
          s1 = (if whatsapp (contacts v) \<noteq> [] then s0 + 3 / 10 else s0);
          s2 = (if instagram (social v) \<noteq> [] then s1 + 2 / 10 else s1);
          s3 = (if truthy_str (resolved (location v)) then s2 + 3 / 10 else s2);
          s4 = (if google_maps (location v) \<noteq> None then s3 + 2 / 10 else s3)
      in round2 (min s4 1))"

definition is_potential_vendor_url :: "string \<Rightarrow> bool" where
  "is_potential_vendor_url u =
     (if u = [] then False
      else if py_in ''instagram.com/p/'' u then False
      else if py_any (map (\<lambda>word. py_in word (lower u))
                [''news'', ''press'', ''job'', ''vacancy'', ''salary'']) then False
      else True)"

definition soft_signals :: "string list" where
  "soft_signals =
     [''order now'', ''call us'', ''dm us'', ''whatsapp'', ''delivery'', ''we offer'',
      ''our services'', ''bookings'', ''price'', ''pricing'', ''available'',
      ''located in'', ''based in'', ''lagos'', ''abuja'']"

definition detect_soft_contact_signals :: "string \<Rightarrow> bool" where
  "detect_soft_contact_signals txt =
     (if txt = [] then False
      else 2 \<le> length (filter (\<lambda>s. py_in s (lower txt)) soft_signals))"

definition is_job_post :: "string \<Rightarrow> bool" where
  "is_job_post txt = py_any (map (\<lambda>word. py_in word (lower txt)) JOB_KEYWORDS)"

text \<open>\<^verbatim>\<open>enrich_google_maps_location\<close>: the reverse-geocoding call reads
  \<^verbatim>\<open>self.gmaps\<close> inside \<^verbatim>\<open>try\<close>; an \<^verbatim>\<open>AttributeError\<close> of that read, like any
  exception of the call, is swallowed by \<^verbatim>\<open>except Exception: pass\<close>.\<close>

definition enrich_google_maps_location ::
  "maps_api \<Rightarrow> vendor_extractor \<Rightarrow> maps_data \<Rightarrow> maps_data" where
  "enrich_google_maps_location maps self loc =
     (if truthy_str (address loc) then loc
      else if \<not> truthy_num (latitude loc) \<or> \<not> truthy_num (longitude loc) then loc
      else if ''gmaps'' \<notin> set vendor_extractor_attributes then loc
      else case reverse_geocode maps (the (latitude loc), the (longitude loc)) of
             None \<Rightarrow> loc
           | Some [] \<Rightarrow> loc
           | Some (r # _) \<Rightarrow> loc\<lparr>address := r, maps_source := ''google_maps''\<rparr>)"

definition extract_vendor_info ::
  "web_api \<Rightarrow> maps_api \<Rightarrow> vendor_extractor \<Rightarrow> 'a hit_scheme \<Rightarrow> string \<Rightarrow> extraction" where
  "extract_vendor_info web maps self search_result user_location =
     (let combined_text = title search_result @ '' '' @ snippet search_result
      in if is_job_post combined_text then Discarded 0 (Some ''job_post_detected'')
      else let u = link search_result
      in if \<not> is_potential_vendor_url u then Discarded 0 None
      else
        let snip = snippet search_result;
            name0 = title search_result;
            wa0 = extract_whatsapp_numbers web snip;
            ig0 = extract_instagram_links web snip;
            inferred0 = infer_location_from_text snip user_location;
            html = fetch_page_content web u;
            has_html = truthy_str html;
            page_text = (if has_html then soup_get_text web (the html) else []);
            wa1 = (if has_html then wa0 @ extract_whatsapp_numbers web page_text else wa0);
            ig1 = (if has_html
                   then ig0 @ filter (\<lambda>l. \<not> py_in ''/p/'' l)
                                (extract_instagram_links web page_text)
                   else ig0);
            name1 = (if has_html
                     then (case soup_title web (the html) of None \<Rightarrow> name0 | Some t \<Rightarrow> t)
                     else name0);
            inferred1 = (if has_html
                         then infer_location_from_text page_text
                                (if truthy_str inferred0 then the inferred0 else user_location)
                         else inferred0);
            enrich = (name1 \<noteq> [] \<and> truthy_str inferred1);
            maps_data0 = (if enrich
                          then enrich_with_google_maps maps self name1 (the inferred1)
                          else None);
            maps_data1 = (case maps_data0 of
                            None \<Rightarrow> None
                          | Some d \<Rightarrow> Some (enrich_google_maps_location maps self d));
            soft = detect_soft_contact_signals (lower (snip @ '' '' @ page_text));
            v = \<lparr>identity = \<lparr>name = name1, id_source = source search_result, url = u\<rparr>,
                 contacts = \<lparr>whatsapp = remdups wa1\<rparr>,
                 social = \<lparr>instagram = remdups ig1\<rparr>,
                 location = \<lparr>loc_text = inferred1,
                             resolved = (if enrich then inferred1 else None),
                             google_maps = maps_data1\<rparr>,
                 confidence_score = (if soft then 0 + 1 / 10 else 0),
                 evidence = (if soft then [''soft_contact_signal''] else [])\<rparr>
        in Kept (v\<lparr>confidence_score := confidence_score v + calculate_confidence_score v\<rparr>))"

section \<open>llm\_reasoner.py\<close>

text \<open>
  The advisory oracle answers with text that \<^verbatim>\<open>_safe_json\<close> passes to
  \<^verbatim>\<open>json.loads\<close>; the methods hand the parsed value on untyped, so the model keeps
  JSON values and the exceptions Python raises on a value of the wrong type.
\<close>

datatype json =
  JNull | JBool bool | JInt int | JFloat rat | JStr string
| JArr "json list" | JObj "(string \<times> json) list"

datatype exn = AttributeError | KeyError | TypeError | IndexError

datatype completion = ApiError string | Content string

text \<open>The prompt of a request is built from the arguments of the method that sends it.\<close>

datatype request =
  AnalysisPrompt string string "vendor list"
| RerankPrompt string "vendor list"
| DecidePrompt string string string "vendor list"
| VendorPrompt string vendor

text \<open>\<open>chat_create\<close> is \<^verbatim>\<open>client.chat.completions.create\<close> followed by the read of
  the message content (\<open>ApiError\<close> with the exception's text when either raises);
  \<open>json_loads\<close> is \<^verbatim>\<open>json.loads\<close>, \<open>None\<close> when it raises.\<close>

record llm_api =
  chat_create :: "request \<Rightarrow> completion"
  json_loads :: "string \<Rightarrow> json option"

text \<open>An \<^verbatim>\<open>LLMReasoner\<close> instance: \<open>client\<close> says whether \<^verbatim>\<open>self.client\<close> is set.\<close>

record llm_reasoner =
  client :: bool

text \<open>\<^verbatim>\<open>d.get(key)\<close> on a parsed value: only a dict has the method.\<close>

definition py_get :: "json \<Rightarrow> string \<Rightarrow> exn + json option" where
  "py_get d k = (case d of JObj kvs \<Rightarrow> Inr (map_of kvs k) | _ \<Rightarrow> Inl AttributeError)"

definition truthy :: "json option \<Rightarrow> bool" where
  "truthy v =
     (case v of
        None \<Rightarrow> False
      | Some JNull \<Rightarrow> False
      | Some (JBool b) \<Rightarrow> b
      | Some (JInt i) \<Rightarrow> i \<noteq> 0
      | Some (JFloat x) \<Rightarrow> x \<noteq> 0
      | Some (JStr s) \<Rightarrow> s \<noteq> []
      | Some (JArr xs) \<Rightarrow> xs \<noteq> []
      | Some (JObj kvs) \<Rightarrow> kvs \<noteq> [])"

function str_nat :: "nat \<Rightarrow> string" where
  "str_nat n =
     (if n < 10 then [''0123456789'' ! n]
      else str_nat (n div 10) @ [''0123456789'' ! (n mod 10)])"
  by pat_completeness auto
termination
  by (relation "measure (\<lambda>n. n)") auto

definition safe_json :: "llm_api \<Rightarrow> string \<Rightarrow> json" where
  "safe_json api content =
     (case json_loads api content of
        Some j \<Rightarrow> j
      | None \<Rightarrow> JObj [(''explanation'', JStr content),
                       (''result_quality'', JStr ''unknown''),
                       (''clarifying_question'', JStr ''NO_QUESTION'')])"

definition fallback_analysis :: "string \<Rightarrow> string \<Rightarrow> vendor list \<Rightarrow> string option \<Rightarrow> json" where
  "fallback_analysis service loc vendors error =
     (let quality = (if 3 \<le> length vendors then ''good'' else ''weak'')
      in JObj [(''explanation'',
                JStr (''Found '' @ str_nat (length vendors) @ '' vendors for '' @ service
                      @ '' in '' @ loc
                      @ '' based on contact availability and location relevance.'')),
               (''result_quality'', JStr quality),
               (''clarifying_question'', JStr ''NO_QUESTION''),
               (''error'', (case error of None \<Rightarrow> JNull | Some e \<Rightarrow> JStr e))])"

definition analyze_results ::
  "llm_api \<Rightarrow> llm_reasoner \<Rightarrow> string \<Rightarrow> string \<Rightarrow> vendor list \<Rightarrow> json" where
  "analyze_results api self service loc vendors =
     (if \<not> client self \<or> vendors = [] then fallback_analysis service loc vendors None
      else case chat_create api (AnalysisPrompt service loc vendors) of
             ApiError e \<Rightarrow> fallback_analysis service loc vendors (Some e)
           | Content c \<Rightarrow> safe_json api c)"

definition identity_order :: "vendor list \<Rightarrow> json" where
  "identity_order vendors = JArr (map (\<lambda>i. JInt (int i)) [0..<length vendors])"

definition rerank_vendors :: "llm_api \<Rightarrow> llm_reasoner \<Rightarrow> string \<Rightarrow> vendor list \<Rightarrow> json" where
  "rerank_vendors api self service vendors =
     (if \<not> client self \<or> length vendors < 2
      then JObj [(''ordered_vendor_ids'', identity_order vendors),
                 (''reasoning'', JStr ''Deterministic ranking retained.'')]
      else case chat_create api (RerankPrompt service (take 10 vendors)) of
             ApiError e \<Rightarrow>
               JObj [(''ordered_vendor_ids'', identity_order vendors),
                     (''reasoning'', JStr (''LLM re-ranking failed: '' @ e))]
           | Content c \<Rightarrow> safe_json api c)"

definition decide_next_search ::
  "llm_api \<Rightarrow> llm_reasoner \<Rightarrow> string \<Rightarrow> string \<Rightarrow> string \<Rightarrow> vendor list \<Rightarrow> json" where
  "decide_next_search api self service loc platform vendors =
     (if 3 \<le> length vendors then JObj [(''action'', JStr ''STOP'')]
      else if \<not> client self then JObj [(''action'', JStr ''STOP'')]
      else case chat_create api (DecidePrompt service loc platform vendors) of
             ApiError e \<Rightarrow> JObj [(''action'', JStr ''STOP'')]
           | Content c \<Rightarrow> safe_json api c)"

definition is_actual_vendor :: "llm_api \<Rightarrow> llm_reasoner \<Rightarrow> string \<Rightarrow> vendor \<Rightarrow> bool" where
  "is_actual_vendor api self service v =
     (if \<not> client self then True
      else case chat_create api (VendorPrompt service v) of
             ApiError e \<Rightarrow> True
           | Content c \<Rightarrow>
               (case py_get (safe_json api c) ''is_vendor'' of
                  Inl e \<Rightarrow> True
                | Inr r \<Rightarrow> truthy r))"

section \<open>vendor\_finder.py\<close>

definition TRADE_SERVICES :: "string list" where
  "TRADE_SERVICES =
     [''plumber'', ''electrician'', ''mechanic'', ''technician'', ''carpenter'', ''welder'',
      ''installer'', ''repair'', ''cleaner'', ''handyman'', ''maintenance'']"

definition VISUAL_SERVICES :: "string list" where
  "VISUAL_SERVICES =
     [''cake'', ''bakery'', ''makeup'', ''photography'', ''fashion'', ''decor'', ''event'',
      ''catering'', ''florist'']"

definition classify_service :: "string \<Rightarrow> string" where
  "classify_service service =
     (if py_any (map (\<lambda>word. py_in word (lower service)) TRADE_SERVICES) then ''trade''
      else if py_any (map (\<lambda>word. py_in word (lower service)) VISUAL_SERVICES) then ''visual''
      else ''general'')"

text \<open>The external capabilities as they answer during one attempt, and the
  \<^verbatim>\<open>VendorFinder\<close> instance with its three collaborators.\<close>

record world =
  search :: search_api
  web :: web_api
  maps :: maps_api
  llm :: llm_api

record vendor_finder =
  search_engine :: search_engine
  extractor :: vendor_extractor
  reasoner :: llm_reasoner

record agent_result =
  vendors :: "vendor list"
  analysis :: json
  agent_reasoning :: "json list"

text \<open>The variables of \<^verbatim>\<open>find_vendors\<close> that the loop changes.\<close>

record refinement_state =
  current_platform :: string
  current_location :: string
  current_min_confidence :: rat
  final_reasoning :: "json list"
  ranked_vendors :: "vendor list"

definition max_attempts :: nat where
  "max_attempts = 2"

definition ranking_key :: "vendor \<Rightarrow> rat \<times> nat \<times> nat \<times> nat" where
  "ranking_key v =
     (let contact_score = (if whatsapp (contacts v) \<noteq> [] then 1 else 0);
          social_score = (if instagram (social v) \<noteq> [] then 1 else 0);
          location_score = (if google_maps (location v) \<noteq> None then 1 else 0)
      in (confidence_score v, contact_score, social_score, location_score))"

definition rank_vendors :: "vendor list \<Rightarrow> vendor list" where
  "rank_vendors vs = sort_desc ranking_key vs"

text \<open>\<^verbatim>\<open>xs[:k]\<close> for an int \<open>k\<close>: a negative \<open>k\<close> counts from the end.\<close>

definition py_take :: "int \<Rightarrow> 'a list \<Rightarrow> 'a list" where
  "py_take k xs = (if 0 \<le> k then take (nat k) xs else take (length xs - nat (- k)) xs)"

text \<open>The extraction loop over the top results, with its three \<^verbatim>\<open>continue\<close> gates and
  the \<^verbatim>\<open>break\<close> at \<^verbatim>\<open>max_results\<close> accepted vendors.\<close>

fun collect_vendors ::
  "world \<Rightarrow> vendor_finder \<Rightarrow> string \<Rightarrow> string \<Rightarrow> rat \<Rightarrow> int \<Rightarrow> vendor list \<Rightarrow>
   scored_hit list \<Rightarrow> vendor list" where
  "collect_vendors w self service loc effective_min_confidence max_results enriched [] =
     enriched"
| "collect_vendors w self service loc effective_min_confidence max_results enriched
     (result # rest) =
     (case extract_vendor_info (web w) (maps w) (extractor self) result loc of
        Discarded _ _ \<Rightarrow>
          collect_vendors w self service loc effective_min_confidence max_results enriched rest
      | Kept v \<Rightarrow>
          if confidence_score v < effective_min_confidence
          then collect_vendors w self service loc effective_min_confidence max_results
                 enriched rest
          else if \<not> is_actual_vendor (llm w) (reasoner self) service v
          then collect_vendors w self service loc effective_min_confidence max_results
                 enriched rest
          else if max_results \<le> int (length (enriched @ [v])) then enriched @ [v]
          else collect_vendors w self service loc effective_min_confidence max_results
                 (enriched @ [v]) rest)"

text \<open>The re-rank step: \<^verbatim>\<open>for i in ids\<close>, the test \<^verbatim>\<open>0 <= i < len(ranked_vendors)\<close>
  and \<^verbatim>\<open>ranked_vendors[i]\<close>, on parsed values of any type.\<close>

definition py_iter :: "json \<Rightarrow> exn + json list" where
  "py_iter v =
     (case v of
        JArr xs \<Rightarrow> Inr xs
      | JStr s \<Rightarrow> Inr (map (\<lambda>c. JStr [c]) s)
      | JObj kvs \<Rightarrow> Inr (map (\<lambda>kv. JStr (fst kv)) kvs)
      | _ \<Rightarrow> Inl TypeError)"

definition in_range :: "json \<Rightarrow> nat \<Rightarrow> exn + bool" where
  "in_range i n =
     (case i of
        JInt k \<Rightarrow> Inr (0 \<le> k \<and> k < int n)
      | JBool b \<Rightarrow> Inr ((if b then 1 else 0) < n)
      | JFloat x \<Rightarrow> Inr (0 \<le> x \<and> x < of_nat n)
      | _ \<Rightarrow> Inl TypeError)"

fun valid_ids :: "nat \<Rightarrow> json list \<Rightarrow> exn + json list" where
  "valid_ids n [] = Inr []"
| "valid_ids n (i # rest) =
     (case in_range i n of
        Inl e \<Rightarrow> Inl e
      | Inr ok \<Rightarrow>
          (case valid_ids n rest of
             Inl e \<Rightarrow> Inl e
           | Inr vs \<Rightarrow> Inr (if ok then i # vs else vs)))"

definition py_index_int :: "'a list \<Rightarrow> int \<Rightarrow> exn + 'a" where
  "py_index_int xs k =
     (let n = int (length xs); j = (if k < 0 then n + k else k)
      in if 0 \<le> j \<and> j < n then Inr (xs ! nat j) else Inl IndexError)"

definition py_index :: "'a list \<Rightarrow> json \<Rightarrow> exn + 'a" where
  "py_index xs i =
     (case i of
        JInt k \<Rightarrow> py_index_int xs k
      | JBool b \<Rightarrow> py_index_int xs (if b then 1 else 0)
      | _ \<Rightarrow> Inl TypeError)"

fun index_all :: "'a list \<Rightarrow> json list \<Rightarrow> exn + 'a list" where
  "index_all xs [] = Inr []"
| "index_all xs (i # rest) =
     (case py_index xs i of
        Inl e \<Rightarrow> Inl e
      | Inr x \<Rightarrow> (case index_all xs rest of Inl e \<Rightarrow> Inl e | Inr ys \<Rightarrow> Inr (x # ys)))"

definition reorder :: "vendor list \<Rightarrow> json \<Rightarrow> exn + vendor list" where
  "reorder ranked rerank =
     (case py_get rerank ''ordered_vendor_ids'' of
        Inl e \<Rightarrow> Inl e
      | Inr ids \<Rightarrow>
          (case py_iter (case ids of None \<Rightarrow> JArr [] | Some v \<Rightarrow> v) of
             Inl e \<Rightarrow> Inl e
           | Inr elems \<Rightarrow>
               (case valid_ids (length ranked) elems of
                  Inl e \<Rightarrow> Inl e
                | Inr valid \<Rightarrow> if valid \<noteq> [] then index_all ranked valid else Inr ranked)))"

definition rerank_step ::
  "llm_api \<Rightarrow> llm_reasoner \<Rightarrow> string \<Rightarrow> vendor list \<Rightarrow> json list \<Rightarrow>
   exn + vendor list \<times> json list" where
  "rerank_step api self service ranked reasoning =
     (if 1 < length ranked
      then let rerank = rerank_vendors api self service ranked
           in case reorder ranked rerank of
                Inl e \<Rightarrow> Inl e
              | Inr ranked' \<Rightarrow>
                  (case py_get rerank ''reasoning'' of
                     Inl e \<Rightarrow> Inl e
                   | Inr r \<Rightarrow>
                       Inr (ranked', if truthy r then reasoning @ [the r] else reasoning))
      else Inr (ranked, reasoning))"

definition apply_decision :: "string \<Rightarrow> json \<Rightarrow> refinement_state \<Rightarrow> refinement_state" where
  "apply_decision service_type action st =
     (if action = JStr ''EXPAND_LOCATION''
      then st\<lparr>current_location := current_location st @ '' nearby'',
              final_reasoning := final_reasoning st @ [JStr ''Expanded search location.'']\<rparr>
      else if action = JStr ''TRY_ANOTHER_PLATFORM''
      then let p = (if service_type = ''visual'' then ''instagram''
                    else if current_platform st = ''instagram'' then ''twitter''
                    else ''instagram'')
           in st\<lparr>current_platform := p,
                 final_reasoning :=
                   final_reasoning st @ [JStr (''Switched platform to '' @ p @ ''.'')]\<rparr>
      else if action = JStr ''RELAX_CONFIDENCE''
      then st\<lparr>current_min_confidence := max (1 / 10) (current_min_confidence st - 1 / 10),
              final_reasoning :=
                final_reasoning st @ [JStr ''Relaxed confidence threshold.'']\<rparr>
      else st)"

text \<open>How one pass through the body of the \<^verbatim>\<open>while\<close> loop ends.\<close>

datatype outcome =
  Continue refinement_state
| Break refinement_state
| Return agent_result
| Raise exn

definition attempt_body ::
  "world \<Rightarrow> vendor_finder \<Rightarrow> string \<Rightarrow> string \<Rightarrow> int \<Rightarrow> rat \<Rightarrow> refinement_state \<Rightarrow>
   outcome" where
  "attempt_body w self service service_type max_results effective_min_confidence st =
     (let st1 = (if service_type = ''visual'' then st\<lparr>current_platform := ''instagram''\<rparr>
                 else st);
          search_results =
            search_vendors (search w) (search_engine self) service
              (current_location st1) (current_platform st1)
      in if search_results = [] then Break st1
      else
        let enriched_vendors =
              collect_vendors w self service (current_location st1)
                effective_min_confidence max_results []
                (py_take (max_results * 3) search_results)
        in if enriched_vendors = [] then Break st1
        else
          (case rerank_step (llm w) (reasoner self) service (rank_vendors enriched_vendors)
                  (final_reasoning st1) of
             Inl e \<Rightarrow> Raise e
           | Inr (ranked, reasoning) \<Rightarrow>
               (let st2 = st1\<lparr>ranked_vendors := ranked, final_reasoning := reasoning\<rparr>;
                    analysis' = analyze_results (llm w) (reasoner self) service
                                  (current_location st2) ranked;
                    decision = decide_next_search (llm w) (reasoner self) service
                                 (current_location st2) (current_platform st2) ranked
                in (case py_get decision ''action'' of
                      Inl e \<Rightarrow> Raise e
                    | Inr a \<Rightarrow>
                        (if a = Some (JStr ''STOP'')
                         then Return \<lparr>vendors = ranked, analysis = analysis',
                                      agent_reasoning = reasoning\<rparr>
                         else (case a of
                                 None \<Rightarrow> Raise KeyError
                               | Some action \<Rightarrow>
                                   Continue (apply_decision service_type action st2)))))))"

definition fallback_result :: "refinement_state \<Rightarrow> agent_result" where
  "fallback_result st =
     \<lparr>vendors = ranked_vendors st,
      analysis = JObj
        [(''explanation'',
          JStr ''Search completed but results were limited or low confidence.''),
         (''result_quality'', JStr ''weak''),
         (''clarifying_question'',
          JStr ''Would you like to broaden the location or try another service?'')],
      agent_reasoning = final_reasoning st\<rparr>"

text \<open>The \<^verbatim>\<open>while attempt < max_attempts\<close> loop. \<open>worlds k\<close> is what the external
  capabilities answer during attempt \<open>k\<close>. The result carries the final value of
  \<^verbatim>\<open>attempt\<close> beside what the call returns or raises.\<close>

function find_vendors_loop ::
  "(nat \<Rightarrow> world) \<Rightarrow> vendor_finder \<Rightarrow> string \<Rightarrow> string \<Rightarrow> int \<Rightarrow> rat \<Rightarrow> nat \<Rightarrow>
   refinement_state \<Rightarrow> nat \<times> (exn + agent_result)" where
  "find_vendors_loop worlds self service service_type max_results effective_min_confidence
     attempt st =
     (if attempt < max_attempts
      then (case attempt_body (worlds (attempt + 1)) self service service_type max_results
                   effective_min_confidence st of
              Continue st' \<Rightarrow>
                find_vendors_loop worlds self service service_type max_results
                  effective_min_confidence (attempt + 1) st'
            | Break st' \<Rightarrow> (attempt + 1, Inr (fallback_result st'))
            | Return r \<Rightarrow> (attempt + 1, Inr r)
            | Raise e \<Rightarrow> (attempt + 1, Inl e))
      else (attempt, Inr (fallback_result st)))"
  by pat_completeness auto
termination
  by (relation "measure (\<lambda>(worlds, self, service, service_type, max_results, emc, attempt, st).
        max_attempts - attempt)") auto

definition find_vendors_run ::
  "(nat \<Rightarrow> world) \<Rightarrow> vendor_finder \<Rightarrow> string \<Rightarrow> string \<Rightarrow> string \<Rightarrow> int \<Rightarrow> rat \<Rightarrow>
   nat \<times> (exn + agent_result)" where
  "find_vendors_run worlds self service loc platform max_results min_confidence =
     (let service_type = classify_service service;
          effective_min_confidence =
            (if service_type = ''trade'' then 2 / 10
             else if service_type = ''visual'' then min_confidence
             else min_confidence)
      in find_vendors_loop worlds self service service_type max_results
           effective_min_confidence 0
           \<lparr>current_platform = platform, current_location = loc,
            current_min_confidence = min_confidence, final_reasoning = [],
            ranked_vendors = []\<rparr>)"

definition find_vendors ::
  "(nat \<Rightarrow> world) \<Rightarrow> vendor_finder \<Rightarrow> string \<Rightarrow> string \<Rightarrow> string \<Rightarrow> int \<Rightarrow> rat \<Rightarrow>
   exn + agent_result" where
  "find_vendors worlds self service loc platform max_results min_confidence =
     snd (find_vendors_run worlds self service loc platform max_results min_confidence)"

section \<open>The specification's wording\<close>

text \<open>Deduplication as the specification words it: a result stays exactly when its URL is
  not empty and no earlier result has the same URL, and the results that stay keep their
  order.\<close>

definition first_occurrences :: "hit list \<Rightarrow> hit list" where
  "first_occurrences raw =
     map (\<lambda>i. raw ! i)
       (filter (\<lambda>i. link (raw ! i) \<noteq> [] \<and> link (raw ! i) \<notin> set (map link (take i raw)))
          [0..<length raw])"

text \<open>The four relevance signals and their sum as the specification lists them. Title,
  snippet, query and the three request strings are compared in lower case, as the code
  does.\<close>

definition service_in_title :: "string \<Rightarrow> hit \<Rightarrow> bool" where
  "service_in_title service r = py_in (lower service) (lower (title r))"

definition location_in_snippet :: "string \<Rightarrow> hit \<Rightarrow> bool" where
  "location_in_snippet loc r = py_in (lower loc) (lower (snippet r))"

definition whatsapp_marker :: "hit \<Rightarrow> bool" where
  "whatsapp_marker r =
     (py_in ''whatsapp'' (lower (snippet r)) \<or> py_in ''wa.me'' (lower (snippet r)))"

definition platform_in_query :: "string \<Rightarrow> hit \<Rightarrow> bool" where
  "platform_in_query platform r = py_in (lower platform) (lower (query_used r))"

definition signal_sum :: "string \<Rightarrow> string \<Rightarrow> string \<Rightarrow> hit \<Rightarrow> rat" where
  "signal_sum service loc platform r =
     (if service_in_title service r then 3 / 10 else 0)
     + (if location_in_snippet loc r then 3 / 10 else 0)
     + (if whatsapp_marker r then 2 / 10 else 0)
     + (if platform_in_query platform r then 2 / 10 else 0)"

definition clamp01 :: "rat \<Rightarrow> rat" where
  "clamp01 x = max 0 (min 1 x)"

text \<open>The confidence score as a function of the fields of the candidate alone: the four
  base contributions, clamped to at most 1 and rounded, and 0.1 more when the evidence
  list holds the soft-signal tag.\<close>

definition confidence_from_fields :: "vendor \<Rightarrow> rat" where
  "confidence_from_fields v =
     (if ''soft_contact_signal'' \<in> set (evidence v) then 1 / 10 else 0)
     + round2 (min 1
         ((if whatsapp (contacts v) \<noteq> [] then 3 / 10 else 0)
          + (if instagram (social v) \<noteq> [] then 2 / 10 else 0)
          + (if truthy_str (resolved (location v)) then 3 / 10 else 0)
          + (if google_maps (location v) \<noteq> None then 2 / 10 else 0)))"

text \<open>Re-ordering as the specification words it: the ids outside \<open>[0, n)\<close> are dropped,
  the ids that remain give the new order, and with no id left the order stays.\<close>

definition reorder_by_valid_ids :: "'a list \<Rightarrow> int list \<Rightarrow> 'a list" where
  "reorder_by_valid_ids ranked ids =
     (let valid = filter (\<lambda>i. 0 \<le> i \<and> i < int (length ranked)) ids
      in if valid = [] then ranked else map (\<lambda>i. ranked ! nat i) valid)"

text \<open>Two states of the loop that search the same platform and location and hold the same
  ranked vendors, and (with \<open>with_log\<close>) the same reasoning log; they may differ in
  \<^verbatim>\<open>current_min_confidence\<close>. Two ends of a pass through the loop body agree when they
  are of the same kind and their states or results agree in this way.\<close>

definition agree :: "bool \<Rightarrow> refinement_state \<Rightarrow> refinement_state \<Rightarrow> bool" where
  "agree with_log a b \<longleftrightarrow>
     current_platform a = current_platform b
     \<and> current_location a = current_location b
     \<and> ranked_vendors a = ranked_vendors b
     \<and> (with_log \<longrightarrow> final_reasoning a = final_reasoning b)"

fun agree_outcome :: "bool \<Rightarrow> outcome \<Rightarrow> outcome \<Rightarrow> bool" where
  "agree_outcome with_log (Continue a) (Continue b) = agree with_log a b"
| "agree_outcome with_log (Break a) (Break b) = agree with_log a b"
| "agree_outcome with_log (Return r) (Return r') =
     (vendors r = vendors r' \<and> analysis r = analysis r'
      \<and> (with_log \<longrightarrow> agent_reasoning r = agent_reasoning r'))"
| "agree_outcome with_log (Raise e) (Raise e') = (e = e')"
| "agree_outcome with_log _ _ = False"

text \<open>What a call hands to its caller apart from the reasoning log: the exception, or the
  vendors and the analysis.\<close>

definition vendors_and_analysis :: "exn + agent_result \<Rightarrow> exn + vendor list \<times> json" where
  "vendors_and_analysis r = map_sum (\<lambda>e. e) (\<lambda>a. (vendors a, analysis a)) r"

text \<open>The ranking tuple as the specification names it: the confidence score and three
  flags in \<open>{0, 1}\<close>. \<open>outranks_or_ties a b\<close> says that the tuple of \<open>a\<close> is
  lexicographically greater than or equal to the tuple of \<open>b\<close>, \<open>same_tuple\<close> that the
  two tuples are identical.\<close>

definition has_whatsapp :: "vendor \<Rightarrow> nat" where
  "has_whatsapp v = (if whatsapp (contacts v) = [] then 0 else 1)"

definition has_instagram :: "vendor \<Rightarrow> nat" where
  "has_instagram v = (if instagram (social v) = [] then 0 else 1)"

definition has_enrichment :: "vendor \<Rightarrow> nat" where
  "has_enrichment v = (if google_maps (location v) = None then 0 else 1)"

definition outranks_or_ties :: "vendor \<Rightarrow> vendor \<Rightarrow> bool" where
  "outranks_or_ties a b \<longleftrightarrow>
     confidence_score b < confidence_score a
     \<or> (confidence_score b = confidence_score a
        \<and> (has_whatsapp b < has_whatsapp a
           \<or> (has_whatsapp b = has_whatsapp a
              \<and> (has_instagram b < has_instagram a
                 \<or> (has_instagram b = has_instagram a
                    \<and> has_enrichment b \<le> has_enrichment a)))))"

definition same_tuple :: "vendor \<Rightarrow> vendor \<Rightarrow> bool" where
  "same_tuple a b \<longleftrightarrow>
     confidence_score b = confidence_score a
     \<and> has_whatsapp b = has_whatsapp a
     \<and> has_instagram b = has_instagram a
     \<and> has_enrichment b = has_enrichment a"

section \<open>Concrete inputs\<close>

text \<open>A search engine with Google configured and Bing not, and a Google that answers the
  first query for cakes in Lagos on Instagram with three items, two of them with the same
  URL.\<close>

definition se1 :: search_engine where
  "se1 = \<lparr>google_api_key = ''key'', google_engine_id = ''cx'', bing_api_key = []\<rparr>"

definition api1 :: search_api where
  "api1 =
     \<lparr>google_items = (\<lambda>q.
        if q = ''site:instagram.com \"cake vendor Lagos\"''
        then Some [\<lparr>item_title = ''Lagos eats'', item_link = ''https://instagram.com/a'',
                     item_snippet = ''food pictures''\<rparr>,
                   \<lparr>item_title = ''Cake House'', item_link = ''https://instagram.com/b'',
                     item_snippet = ''Cakes in Lagos, order on wa.me/2348012345678''\<rparr>,
                   \<lparr>item_title = ''Lagos eats again'',
                     item_link = ''https://instagram.com/a'', item_snippet = ''more food''\<rparr>]
        else Some []),
      bing_items = (\<lambda>q. None)\<rparr>"

definition cake_house :: scored_hit where
  "cake_house =
     \<lparr>title = ''Cake House'', link = ''https://instagram.com/b'',
      snippet = ''Cakes in Lagos, order on wa.me/2348012345678'', source = ''google'',
      query_used = ''site:instagram.com \"cake vendor Lagos\"'', relevance_score = 1\<rparr>"

text \<open>A result for "Sweet Cakes" whose snippet holds a WhatsApp number, an Instagram
  handle and four soft-signal phrases. \<open>web1\<close> answers \<^verbatim>\<open>re.findall\<close> on that snippet as
  Python does; the page fetch fails. \<open>maps1\<close> knows the business with its address;
  \<open>maps2\<close> knows it with coordinates and no address, and reverse-geocodes them.\<close>

definition sweet_cakes :: hit where
  "sweet_cakes =
     \<lparr>title = ''Sweet Cakes'', link = ''https://instagram.com/sweetcakes_ng'',
      snippet = ''Order now, delivery in Lagos. WhatsApp: +2348012345678 @sweetcakes_ng'',
      source = ''google'', query_used = ''site:instagram.com \"cake vendor Lagos\"''\<rparr>"

definition web1 :: web_api where
  "web1 =
     \<lparr>re_findall = (\<lambda>p txt.
        if txt = ''Order now, delivery in Lagos. WhatsApp: +2348012345678 @sweetcakes_ng''
        then (case p of
                WhatsappPrefixed \<Rightarrow> [''+2348012345678 '']
              | NigerianNumber \<Rightarrow> [''+2348012345678'']
              | GenericNumber \<Rightarrow> [''+2348012345678 '']
              | AtHandle \<Rightarrow> [''@sweetcakes_ng'']
              | _ \<Rightarrow> [])
        else []),
      http_get = (\<lambda>u. None),
      soup_get_text = (\<lambda>html. []),
      soup_title = (\<lambda>html. None)\<rparr>"

definition maps1 :: maps_api where
  "maps1 =
     \<lparr>places = (\<lambda>q.
        if q = ''Sweet Cakes Lagos''
        then Some [\<lparr>formatted_address = Some ''12 Allen Avenue, Ikeja, Lagos'',
                     geometry_lat = Some (6601 / 1000), geometry_lng = Some (3351 / 1000),
                     place_rating = Some (45 / 10), place_place_id = Some ''place-1''\<rparr>]
        else Some []),
      reverse_geocode = (\<lambda>c. Some [])\<rparr>"

definition maps2 :: maps_api where
  "maps2 =
     \<lparr>places = (\<lambda>q.
        if q = ''Sweet Cakes Lagos''
        then Some [\<lparr>formatted_address = None,
                     geometry_lat = Some (6601 / 1000), geometry_lng = Some (3351 / 1000),
                     place_rating = None, place_place_id = Some ''place-1''\<rparr>]
        else Some []),
      reverse_geocode = (\<lambda>c.
        if c = (6601 / 1000, 3351 / 1000) then Some [Some ''12 Allen Avenue, Ikeja, Lagos'']
        else Some [])\<rparr>"

definition extractor1 :: vendor_extractor where
  "extractor1 = \<lparr>gmaps_client = True\<rparr>"

definition sweet_cakes_vendor :: vendor where
  "sweet_cakes_vendor =
     \<lparr>identity = \<lparr>name = ''Sweet Cakes'', id_source = ''google'',
                   url = ''https://instagram.com/sweetcakes_ng''\<rparr>,
      contacts = \<lparr>whatsapp = [''+2348012345678'']\<rparr>,
      social = \<lparr>instagram = [''https://instagram.com/sweetcakes_ng'']\<rparr>,
      location =
        \<lparr>loc_text = Some ''Lagos'', resolved = Some ''Lagos'',
         google_maps =
           Some \<lparr>address = Some ''12 Allen Avenue, Ikeja, Lagos'',
                 latitude = Some (6601 / 1000), longitude = Some (3351 / 1000),
                 rating = Some (45 / 10), place_id = Some ''place-1'',
                 maps_source = ''google_maps''\<rparr>\<rparr>,
      confidence_score = 11 / 10,
      evidence = [''soft_contact_signal'']\<rparr>"

text \<open>A search that finds "Sweet Cakes" for the first query for cakes in Lagos on Instagram
  and nothing else, and an oracle that accepts every vendor, answers a re-rank request
  with the ids 5 and 0, fails on an analysis request, and answers a decision request with
  the text \<open>d\<close>. \<^verbatim>\<open>json.loads\<close> parses the three JSON texts used here and raises on
  any other text.\<close>

definition api2 :: search_api where
  "api2 =
     \<lparr>google_items = (\<lambda>q.
        if q = ''site:instagram.com \"cake vendor Lagos\"''
        then Some [\<lparr>item_title = ''Sweet Cakes'',
                     item_link = ''https://instagram.com/sweetcakes_ng'',
                     item_snippet =
                       ''Order now, delivery in Lagos. WhatsApp: +2348012345678 @sweetcakes_ng''\<rparr>]
        else Some []),
      bing_items = (\<lambda>q. None)\<rparr>"

definition llm_with :: "string \<Rightarrow> llm_api" where
  "llm_with d =
     \<lparr>chat_create = (\<lambda>req.
        case req of
          VendorPrompt service v \<Rightarrow> Content ''{\"is_vendor\": true}''
        | RerankPrompt service vs \<Rightarrow> Content ''{\"ordered_vendor_ids\": [5, 0]}''
        | AnalysisPrompt service loc vs \<Rightarrow> ApiError ''timeout''
        | DecidePrompt service loc platform vs \<Rightarrow> Content d),
      json_loads = (\<lambda>c.
        if c = ''{\"is_vendor\": true}'' then Some (JObj [(''is_vendor'', JBool True)])
        else if c = ''{\"ordered_vendor_ids\": [5, 0]}''
        then Some (JObj [(''ordered_vendor_ids'', JArr [JInt 5, JInt 0])])
        else if c = ''{\"action\": \"RELAX_CONFIDENCE\"}''
        then Some (JObj [(''action'', JStr ''RELAX_CONFIDENCE'')])
        else None)\<rparr>"

definition llm_down :: llm_api where
  "llm_down = \<lparr>chat_create = (\<lambda>req. ApiError ''timeout''), json_loads = (\<lambda>c. None)\<rparr>"

definition world_with :: "string \<Rightarrow> world" where
  "world_with d = \<lparr>search = api2, web = web1, maps = maps1, llm = llm_with d\<rparr>"

definition finder1 :: vendor_finder where
  "finder1 = \<lparr>search_engine = se1, extractor = extractor1, reasoner = \<lparr>client = True\<rparr>\<rparr>"

definition other_vendor :: vendor where
  "other_vendor =
     \<lparr>identity = \<lparr>name = ''Lagos Bakes'', id_source = ''google'',
                   url = ''https://instagram.com/lagosbakes''\<rparr>,
      contacts = \<lparr>whatsapp = []\<rparr>,
      social = \<lparr>instagram = [''https://instagram.com/lagosbakes'']\<rparr>,
      location = \<lparr>loc_text = Some ''Lagos'', resolved = Some ''Lagos'', google_maps = None\<rparr>,
      confidence_score = 1 / 2,
      evidence = []\<rparr>"

definition stop :: json where
  "stop = JObj [(''action'', JStr ''STOP'')]"

text \<open>A search that finds "Sweet Cakes" and "Lagos Bakes" for the first query for cakes in
  Lagos on Instagram, \<^verbatim>\<open>re.findall\<close> on the two snippets as Python answers, and an
  oracle that accepts every vendor and answers a re-rank request with the text \<open>c\<close>, which
  \<^verbatim>\<open>json.loads\<close> parses to \<open>j\<close>; its other calls fail.\<close>

definition api3 :: search_api where
  "api3 =
     \<lparr>google_items = (\<lambda>q.
        if q = ''site:instagram.com \"cake vendor Lagos\"''
        then Some [\<lparr>item_title = ''Sweet Cakes'',
                     item_link = ''https://instagram.com/sweetcakes_ng'',
                     item_snippet =
                       ''Order now, delivery in Lagos. WhatsApp: +2348012345678 @sweetcakes_ng''\<rparr>,
                   \<lparr>item_title = ''Lagos Bakes'',
                     item_link = ''https://instagram.com/lagosbakes'',
                     item_snippet = ''Birthday cakes in Lagos. WhatsApp: +2348098765432''\<rparr>]
        else Some []),
      bing_items = (\<lambda>q. None)\<rparr>"

definition web3 :: web_api where
  "web3 =
     \<lparr>re_findall = (\<lambda>p txt.
        if txt = ''Order now, delivery in Lagos. WhatsApp: +2348012345678 @sweetcakes_ng''
        then (case p of
                WhatsappPrefixed \<Rightarrow> [''+2348012345678 '']
              | NigerianNumber \<Rightarrow> [''+2348012345678'']
              | GenericNumber \<Rightarrow> [''+2348012345678 '']
              | AtHandle \<Rightarrow> [''@sweetcakes_ng'']
              | _ \<Rightarrow> [])
        else if txt = ''Birthday cakes in Lagos. WhatsApp: +2348098765432''
        then (case p of
                WhatsappPrefixed \<Rightarrow> [''+2348098765432'']
              | NigerianNumber \<Rightarrow> [''+2348098765432'']
              | GenericNumber \<Rightarrow> [''+2348098765432'']
              | _ \<Rightarrow> [])
        else []),
      http_get = (\<lambda>u. None),
      soup_get_text = (\<lambda>html. []),
      soup_title = (\<lambda>html. None)\<rparr>"

definition llm_rerank_answer :: "string \<Rightarrow> json option \<Rightarrow> llm_api" where
  "llm_rerank_answer c j =
     \<lparr>chat_create = (\<lambda>req.
        case req of
          VendorPrompt service v \<Rightarrow> Content ''{\"is_vendor\": true}''
        | RerankPrompt service vs \<Rightarrow> Content c
        | AnalysisPrompt service loc vs \<Rightarrow> ApiError ''timeout''
        | DecidePrompt service loc platform vs \<Rightarrow> ApiError ''timeout''),
      json_loads = (\<lambda>x.
        if x = ''{\"is_vendor\": true}'' then Some (JObj [(''is_vendor'', JBool True)])
        else if x = c then j
        else None)\<rparr>"

definition world_rerank :: "string \<Rightarrow> json option \<Rightarrow> world" where
  "world_rerank c j = \<lparr>search = api3, web = web3, maps = maps1, llm = llm_rerank_answer c j\<rparr>"

definition lagos_bakes_vendor :: vendor where
  "lagos_bakes_vendor =
     \<lparr>identity = \<lparr>name = ''Lagos Bakes'', id_source = ''google'',
                   url = ''https://instagram.com/lagosbakes''\<rparr>,
      contacts = \<lparr>whatsapp = [''+2348098765432'']\<rparr>,
      social = \<lparr>instagram = []\<rparr>,
      location = \<lparr>loc_text = Some ''Lagos'', resolved = Some ''Lagos'', google_maps = None\<rparr>,
      confidence_score = 7 / 10,
      evidence = [''soft_contact_signal'']\<rparr>"

section \<open>Properties of the search aggregator\<close>

lemma truncate_extend: "hit.truncate (hit.extend r (scored_hit.fields x)) = r"
  by (simp add: hit.truncate_def hit.extend_def)

lemma score_extend: "relevance_score (hit.extend r (scored_hit.fields x)) = x"
  by (simp add: hit.extend_def scored_hit.fields_def)

lemma link_extend: "link (hit.extend r (scored_hit.fields x)) = link r"
  by (simp add: hit.extend_def)

lemma relevance_signal_sum:
  "relevance service loc platform r = round2 (clamp01 (signal_sum service loc platform r))"
  by (simp add: relevance_def signal_sum_def Let_def clamp01_def service_in_title_def
      location_in_snippet_def whatsapp_marker_def platform_in_query_def)

lemma round2_signal_sum:
  "round2 (clamp01 (signal_sum service loc platform r)) = signal_sum service loc platform r"
  by (simp add: signal_sum_def round2_def clamp01_def)

lemma signal_sum_bounds:
  "0 \<le> signal_sum service loc platform r \<and> signal_sum service loc platform r \<le> 1"
  by (simp add: signal_sum_def)

lemma unique_results_score:
  "h \<in> set (unique_results s l p seen raw) \<Longrightarrow>
     relevance_score h = relevance s l p (hit.truncate h) \<and> hit.truncate h \<in> set raw"
  by (induction raw arbitrary: seen)
     (auto simp: Let_def truncate_extend score_extend split: if_splits)

lemma set_insort_desc: "set (insort_desc key x ys) = insert x (set ys)"
  by (induction ys) auto

lemma mset_insort_desc: "mset (insort_desc key x ys) = add_mset x (mset ys)"
  by (induction ys) auto

lemma mset_sort_desc: "mset (sort_desc key xs) = mset xs"
  by (induction xs) (auto simp: sort_desc_def mset_insort_desc)

lemma set_sort_desc: "set (sort_desc key xs) = set xs"
  by (induction xs) (auto simp: sort_desc_def set_insort_desc)

lemma sorted_insort_desc:
  "sorted_wrt (\<lambda>a b. key b \<le> key a) ys \<Longrightarrow>
   sorted_wrt (\<lambda>a b. key b \<le> key a) (insort_desc key x ys)"
  by (induction ys) (auto simp: set_insort_desc)

lemma sorted_sort_desc: "sorted_wrt (\<lambda>a b. key b \<le> key a) (sort_desc key xs)"
  by (induction xs) (auto simp: sort_desc_def sorted_insort_desc)

lemma filter_insort_desc:
  "sorted_wrt (\<lambda>a b. key b \<le> key a) ys \<Longrightarrow>
   filter (\<lambda>v. key v = k) (insort_desc key x ys) =
     (if key x = k then x # filter (\<lambda>v. key v = k) ys else filter (\<lambda>v. key v = k) ys)"
  by (induction ys) (auto simp: filter_empty_conv)

lemma sort_desc_stable:
  "filter (\<lambda>v. key v = k) (sort_desc key xs) = filter (\<lambda>v. key v = k) xs"
proof (induction xs)
  case Nil
  show ?case by (simp add: sort_desc_def)
next
  case (Cons x xs)
  have "sort_desc key (x # xs) = insort_desc key x (sort_desc key xs)"
    by (simp add: sort_desc_def)
  then show ?case
    using Cons filter_insort_desc [OF sorted_sort_desc, of key k x xs] by simp
qed

lemma map_sort_desc: "map f (sort_desc (\<lambda>x. key (f x)) xs) = sort_desc key (map f xs)"
proof -
  have ins: "map f (insort_desc (\<lambda>x. key (f x)) x ys) = insort_desc key (f x) (map f ys)"
    for x ys
    by (induction ys) auto
  show ?thesis
    by (induction xs) (auto simp: sort_desc_def ins)
qed

lemma sort_desc_cong:
  "(\<And>x. x \<in> set xs \<Longrightarrow> key x = key' x) \<Longrightarrow> sort_desc key xs = sort_desc key' xs"
proof (induction xs)
  case Nil
  show ?case by (simp add: sort_desc_def)
next
  case (Cons x xs)
  have ins: "set ys \<subseteq> set xs \<Longrightarrow> insort_desc key x ys = insort_desc key' x ys" for ys
    using Cons.prems by (induction ys) auto
  have "sort_desc key xs = sort_desc key' xs"
    using Cons by simp
  then show ?case
    using ins [of "sort_desc key' xs"]
    by (simp add: sort_desc_def set_sort_desc [unfolded sort_desc_def])
qed

lemma unique_results_first_occurrences_from:
  "map hit.truncate (unique_results s l p seen raw) =
     map (\<lambda>i. raw ! i)
       (filter (\<lambda>i. link (raw ! i) \<noteq> [] \<and>
                     link (raw ! i) \<notin> seen \<union> set (map link (take i raw)))
          [0..<length raw])"
proof (induction raw arbitrary: seen)
  case Nil
  show ?case by simp
next
  case (Cons r rs)
  have upt: "[0..<length (r # rs)] = 0 # map Suc [0..<length rs]"
    by (simp add: upt_conv_Cons map_Suc_upt del: upt_Suc)
  show ?case
  proof (cases "link r = [] \<or> link r \<in> seen")
    case True
    have P: "(link (rs ! i) \<noteq> [] \<and>
                link (rs ! i) \<notin> seen \<union> set (map link (take (Suc i) (r # rs))))
           = (link (rs ! i) \<noteq> [] \<and> link (rs ! i) \<notin> seen \<union> set (map link (take i rs)))"
      for i
      using True by auto
    have "map ((!) (r # rs)) (filter (\<lambda>i. link ((r # rs) ! i) \<noteq> [] \<and>
              link ((r # rs) ! i) \<notin> seen \<union> set (map link (take i (r # rs))))
            (map Suc [0..<length rs]))
          = map ((!) rs) (filter (\<lambda>i. link (rs ! i) \<noteq> [] \<and>
              link (rs ! i) \<notin> seen \<union> set (map link (take i rs))) [0..<length rs])"
      by (simp only: filter_map o_def P map_map nth_Cons_Suc)
    with True show ?thesis
      unfolding upt by (auto simp: Cons.IH)
  next
    case False
    have P: "(link (rs ! i) \<noteq> [] \<and>
                link (rs ! i) \<notin> seen \<union> set (map link (take (Suc i) (r # rs))))
           = (link (rs ! i) \<noteq> [] \<and>
                link (rs ! i) \<notin> insert (link r) seen \<union> set (map link (take i rs)))"
      for i
      by auto
    have "map ((!) (r # rs)) (filter (\<lambda>i. link ((r # rs) ! i) \<noteq> [] \<and>
              link ((r # rs) ! i) \<notin> seen \<union> set (map link (take i (r # rs))))
            (map Suc [0..<length rs]))
          = map ((!) rs) (filter (\<lambda>i. link (rs ! i) \<noteq> [] \<and>
              link (rs ! i) \<notin> insert (link r) seen \<union> set (map link (take i rs)))
            [0..<length rs])"
      by (simp only: filter_map o_def P map_map nth_Cons_Suc)
    with False show ?thesis
      unfolding upt by (simp add: Cons.IH Let_def truncate_extend)
  qed
qed

lemma unique_results_first_occurrences:
  "map hit.truncate (unique_results s l p {} raw) = first_occurrences raw"
  by (simp add: unique_results_first_occurrences_from first_occurrences_def)

lemma unique_results_links:
  "distinct (map link (unique_results s l p seen raw)) \<and>
   set (map link (unique_results s l p seen raw)) = set (map link raw) - {[]} - seen"
  by (induction raw arbitrary: seen) (auto simp: Let_def link_extend)

text \<open>C4. Every result that \<open>search_vendors\<close> returns carries the relevance score of the
  specification: 0.3 for the service in the title, 0.3 for the location in the snippet,
  0.2 for a WhatsApp marker in the snippet and 0.2 for the platform in the query that
  produced it, summed, clamped to [0, 1] and rounded to two decimals. The score lies in
  [0, 1], and a result with all four signals scores exactly 1.\<close>

theorem relevance_score_of_hits:
  "\<forall>h \<in> set (search_vendors api se service loc platform).
     relevance_score h
       = round2 (clamp01 (signal_sum service loc platform (hit.truncate h)))
     \<and> 0 \<le> relevance_score h \<and> relevance_score h \<le> 1
     \<and> (service_in_title service (hit.truncate h)
          \<and> location_in_snippet loc (hit.truncate h)
          \<and> whatsapp_marker (hit.truncate h)
          \<and> platform_in_query platform (hit.truncate h)
        \<longrightarrow> relevance_score h = 1)"
proof
  fix h
  assume "h \<in> set (search_vendors api se service loc platform)"
  then have "h \<in> set (unique_results service loc platform {}
                        (raw_results api se (build_queries service loc platform)))"
    by (simp add: search_vendors_def Let_def set_sort_desc)
  then have score: "relevance_score h = relevance service loc platform (hit.truncate h)"
    using unique_results_score by blast
  have eq: "relevance_score h = signal_sum service loc platform (hit.truncate h)"
    using score by (simp add: relevance_signal_sum round2_signal_sum)
  have all4: "service_in_title service (hit.truncate h)
          \<and> location_in_snippet loc (hit.truncate h)
          \<and> whatsapp_marker (hit.truncate h)
          \<and> platform_in_query platform (hit.truncate h)
        \<longrightarrow> signal_sum service loc platform (hit.truncate h) = 1"
    by (simp add: signal_sum_def)
  show "relevance_score h
       = round2 (clamp01 (signal_sum service loc platform (hit.truncate h)))
     \<and> 0 \<le> relevance_score h \<and> relevance_score h \<le> 1
     \<and> (service_in_title service (hit.truncate h)
          \<and> location_in_snippet loc (hit.truncate h)
          \<and> whatsapp_marker (hit.truncate h)
          \<and> platform_in_query platform (hit.truncate h)
        \<longrightarrow> relevance_score h = 1)"
    using score eq all4 signal_sum_bounds [of service loc platform "hit.truncate h"]
    by (simp add: relevance_signal_sum)
qed

lemma cake_house_found:
  "cake_house \<in> set (search_vendors api1 se1 ''cake'' ''Lagos'' ''instagram'')"
  by code_simp

lemma cake_house_signals:
  "service_in_title ''cake'' (hit.truncate cake_house)
   \<and> location_in_snippet ''Lagos'' (hit.truncate cake_house)
   \<and> whatsapp_marker (hit.truncate cake_house)
   \<and> platform_in_query ''instagram'' (hit.truncate cake_house)"
  by code_simp

text \<open>The search for cakes in Lagos on Instagram returns the result "Cake House", which
  has all four signals and the score 1.\<close>

theorem relevance_score_of_hits_witness:
  "cake_house \<in> set (search_vendors api1 se1 ''cake'' ''Lagos'' ''instagram'')
   \<and> service_in_title ''cake'' (hit.truncate cake_house)
   \<and> location_in_snippet ''Lagos'' (hit.truncate cake_house)
   \<and> whatsapp_marker (hit.truncate cake_house)
   \<and> platform_in_query ''instagram'' (hit.truncate cake_house)
   \<and> relevance_score cake_house
       = round2 (clamp01 (signal_sum ''cake'' ''Lagos'' ''instagram''
                            (hit.truncate cake_house)))
   \<and> 0 \<le> relevance_score cake_house \<and> relevance_score cake_house \<le> 1
   \<and> relevance_score cake_house = 1"
  using relevance_score_of_hits [of api1 se1 "''cake''" "''Lagos''" "''instagram''"]
    cake_house_found cake_house_signals
  by blast

text \<open>C6, as stated: the URLs of the output of \<open>search_vendors\<close> are the URLs of the first
  occurrences, each at the position of its first occurrence. This fails: the output is
  sorted by relevance after the deduplication, so "Cake House", found second, comes
  first.\<close>

theorem search_vendors_positions_counterexample:
  "map link (search_vendors api1 se1 ''cake'' ''Lagos'' ''instagram'')
   \<noteq> map link (first_occurrences
                  (raw_results api1 se1 (build_queries ''cake'' ''Lagos'' ''instagram'')))"
  by code_simp

text \<open>C6, amended. The output of \<open>search_vendors\<close> contains each non-empty URL of the raw
  results exactly once and no empty URL; its results are the first occurrences, and their
  order is the order of first occurrence stably sorted by descending relevance score (so
  results with equal scores stay in the order of their first occurrences).\<close>

theorem search_vendors_deduplicated:
  "distinct (map link (search_vendors api se service loc platform))
   \<and> set (map link (search_vendors api se service loc platform))
       = set (map link (raw_results api se (build_queries service loc platform))) - {[]}
   \<and> map hit.truncate (search_vendors api se service loc platform)
       = sort_desc (relevance service loc platform)
           (first_occurrences (raw_results api se (build_queries service loc platform)))"
proof -
  let ?raw = "raw_results api se (build_queries service loc platform)"
  let ?u = "unique_results service loc platform {} ?raw"
  have sv: "search_vendors api se service loc platform = sort_desc relevance_score ?u"
    by (simp add: search_vendors_def Let_def)
  have "mset (map link (sort_desc relevance_score ?u)) = mset (map link ?u)"
    by (simp add: mset_sort_desc)
  then have d: "distinct (map link (sort_desc relevance_score ?u))"
    using unique_results_links [of service loc platform "{}" ?raw]
    by (metis distinct_count_atmost_1 set_mset_mset)
  have s: "set (map link (sort_desc relevance_score ?u)) = set (map link ?raw) - {[]}"
    using unique_results_links [of service loc platform "{}" ?raw]
    by (simp add: set_sort_desc)
  have "sort_desc relevance_score ?u
        = sort_desc (\<lambda>h. relevance service loc platform (hit.truncate h)) ?u"
    by (rule sort_desc_cong) (simp add: unique_results_score)
  then have m: "map hit.truncate (sort_desc relevance_score ?u)
        = sort_desc (relevance service loc platform) (first_occurrences ?raw)"
    by (simp add: map_sort_desc unique_results_first_occurrences)
  show ?thesis
    using d s m by (simp only: sv)
qed

section \<open>Properties of the ranker\<close>

lemma outranks_or_ties_key: "outranks_or_ties a b \<longleftrightarrow> ranking_key b \<le> ranking_key a"
  by (auto simp: outranks_or_ties_def ranking_key_def Let_def has_whatsapp_def
      has_instagram_def has_enrichment_def less_eq_prod_def less_prod_def)

lemma same_tuple_key: "same_tuple a b \<longleftrightarrow> ranking_key b = ranking_key a"
  by (auto simp: same_tuple_def ranking_key_def Let_def has_whatsapp_def
      has_instagram_def has_enrichment_def)

text \<open>C8. \<open>rank_vendors\<close> returns its input rearranged so that every candidate's tuple
  (confidence score, has WhatsApp, has Instagram, has enrichment) is lexicographically
  greater than or equal to the tuple of every candidate after it, and it is stable: the
  candidates whose tuple is identical to that of any given candidate appear in the output
  in the order they have in the input.\<close>

theorem rank_vendors_descending_stable:
  "sorted_wrt outranks_or_ties (rank_vendors vs)
   \<and> mset (rank_vendors vs) = mset vs
   \<and> (\<forall>v. filter (same_tuple v) (rank_vendors vs) = filter (same_tuple v) vs)"
proof -
  have o: "outranks_or_ties = (\<lambda>a b. ranking_key b \<le> ranking_key a)"
    by (intro ext) (rule outranks_or_ties_key)
  have s: "same_tuple v = (\<lambda>b. ranking_key b = ranking_key v)" for v
    by (intro ext) (rule same_tuple_key)
  show ?thesis
    unfolding o s
    by (simp add: rank_vendors_def sorted_sort_desc mset_sort_desc sort_desc_stable)
qed

text \<open>Four candidates: the one with the highest score moves to the front, the two with
  the same tuple keep their order, and the one with the lowest score goes last.\<close>

lemma rank_vendors_example:
  "rank_vendors [other_vendor, lagos_bakes_vendor, sweet_cakes_vendor, lagos_bakes_vendor]
   = [sweet_cakes_vendor, lagos_bakes_vendor, lagos_bakes_vendor, other_vendor]"
  by code_simp

section \<open>Properties of the extractor\<close>

lemma enrich_google_maps_location_unchanged:
  "enrich_google_maps_location mp self loc = loc"
  by (simp add: enrich_google_maps_location_def vendor_extractor_attributes_def)

lemma calculate_confidence_score_fields:
  "calculate_confidence_score v =
     round2 (min 1
         ((if whatsapp (contacts v) \<noteq> [] then 3 / 10 else 0)
          + (if instagram (social v) \<noteq> [] then 2 / 10 else 0)
          + (if truthy_str (resolved (location v)) then 3 / 10 else 0)
          + (if google_maps (location v) \<noteq> None then 2 / 10 else 0)))"
  by (simp add: calculate_confidence_score_def Let_def min.commute)

lemma calculate_confidence_score_range:
  "0 \<le> calculate_confidence_score v \<and> calculate_confidence_score v \<le> 1"
  by (simp add: calculate_confidence_score_fields round2_def)

lemma assemble_vendor:
  assumes "x\<lparr>confidence_score := confidence_score x + calculate_confidence_score x\<rparr> = v"
    and "x = \<lparr>identity = \<lparr>name = n, id_source = s, url = u\<rparr>, contacts = c, social = g,
              location = l,
              confidence_score = (if soft then 0 + 1 / 10 else 0),
              evidence = (if soft then [''soft_contact_signal''] else [])\<rparr>"
  shows "url (identity v) = u \<and> confidence_score v = confidence_from_fields v"
proof -
  have v: "v = x\<lparr>confidence_score := confidence_score x + calculate_confidence_score x\<rparr>"
    using assms(1) by simp
  show ?thesis
    unfolding v assms(2)
    by (simp add: confidence_from_fields_def calculate_confidence_score_fields)
qed


lemma extract_vendor_info_kept:
  assumes "extract_vendor_info wb mp self r loc = Kept v"
  shows "is_potential_vendor_url (link r)
         \<and> url (identity v) = link r \<and> confidence_score v = confidence_from_fields v"
proof (cases "is_job_post (title r @ '' '' @ snippet r)")
  case True
  then show ?thesis
    using assms by (simp add: extract_vendor_info_def Let_def)
next
  case job: False
  show ?thesis
  proof (cases "is_potential_vendor_url (link r)")
    case False
    then show ?thesis
      using assms job by (simp add: extract_vendor_info_def Let_def)
  next
    case True
    have "url (identity v) = link r \<and> confidence_score v = confidence_from_fields v"
      using assms
      apply (simp only: extract_vendor_info_def Let_def job True if_False if_True
          not_True_eq_False extraction.inject)
      apply (erule assemble_vendor)
      apply (rule refl)
      done
    with True show ?thesis by simp
  qed
qed


text \<open>C9. A candidate that \<open>extract_vendor_info\<close> returns and does not mark discarded has
  a non-empty \<^verbatim>\<open>identity.url\<close>, and its confidence score is a function of its own fields
  (WhatsApp contacts, Instagram links, resolved location, enrichment, evidence), whatever
  the external capabilities answered.\<close>

theorem kept_candidate_invariant:
  "extract_vendor_info wb mp self r loc = Kept v \<Longrightarrow>
     url (identity v) \<noteq> [] \<and> confidence_score v = confidence_from_fields v"
  using extract_vendor_info_kept [of wb mp self r loc v]
  by (auto simp: is_potential_vendor_url_def)

lemma confidence_score_range:
  "extract_vendor_info wb mp self r loc = Kept v \<Longrightarrow>
     0 \<le> confidence_score v \<and> confidence_score v \<le> 11 / 10"
  using extract_vendor_info_kept [of wb mp self r loc v]
    calculate_confidence_score_range [of v]
  by (simp add: confidence_from_fields_def calculate_confidence_score_fields)

lemma sweet_cakes_extracted:
  "extract_vendor_info web1 maps1 extractor1 sweet_cakes ''Lagos'' = Kept sweet_cakes_vendor"
  by code_simp

text \<open>The result "Sweet Cakes" is extracted and kept; its URL is not empty and its score
  is the score of its fields.\<close>

theorem kept_candidate_invariant_witness:
  "extract_vendor_info web1 maps1 extractor1 sweet_cakes ''Lagos'' = Kept sweet_cakes_vendor
   \<and> url (identity sweet_cakes_vendor) \<noteq> []
   \<and> confidence_score sweet_cakes_vendor = confidence_from_fields sweet_cakes_vendor"
  using kept_candidate_invariant [OF sweet_cakes_extracted] sweet_cakes_extracted
  by simp

text \<open>C1 says that every candidate's confidence score lies in [0, 1], the soft-signal bonus
  being added before the clamp. The code clamps the four base contributions in
  \<open>calculate_confidence_score\<close> and adds the bonus outside it: "Sweet Cakes", with all four
  base signals and the soft signals, scores 1.1.\<close>

theorem confidence_score_exceeds_one:
  "extract_vendor_info web1 maps1 extractor1 sweet_cakes ''Lagos'' = Kept sweet_cakes_vendor
   \<and> confidence_score sweet_cakes_vendor = 11 / 10
   \<and> \<not> confidence_score sweet_cakes_vendor \<le> 1"
  using sweet_cakes_extracted by (simp add: sweet_cakes_vendor_def)

text \<open>C7 says that an enrichment record without address but with coordinates gets the
  reverse-geocoded address. With \<open>maps2\<close> the record of "Sweet Cakes" has coordinates and
  no address, and reverse geocoding knows the address of the coordinates; the stored
  record still has no address, since the read of \<^verbatim>\<open>self.gmaps\<close> raises and the
  exception is swallowed.\<close>

theorem reverse_geocoded_address_not_stored:
  "places maps2 ''Sweet Cakes Lagos''
     = Some [\<lparr>formatted_address = None, geometry_lat = Some (6601 / 1000),
              geometry_lng = Some (3351 / 1000), place_rating = None,
              place_place_id = Some ''place-1''\<rparr>]
   \<and> reverse_geocode maps2 (6601 / 1000, 3351 / 1000)
       = Some [Some ''12 Allen Avenue, Ikeja, Lagos'']
   \<and> (case extract_vendor_info web1 maps2 extractor1 sweet_cakes ''Lagos'' of
         Kept v \<Rightarrow> map_option address (google_maps (location v)) = Some None
       | Discarded c reason \<Rightarrow> False)"
  by code_simp

section \<open>Properties of the advisory oracle adapter\<close>

text \<open>With three or more candidates \<open>decide_next_search\<close> answers STOP whatever the
  oracle is and whether or not it is configured, so without consulting it; with fewer
  than three candidates it answers STOP when no oracle is configured and when the call to
  the oracle raises.\<close>

lemma decide_next_search_stop:
  "(3 \<le> length vs \<longrightarrow> decide_next_search api self service loc platform vs = stop)
   \<and> (length vs < 3 \<and> \<not> client self \<longrightarrow>
        decide_next_search api self service loc platform vs = stop)
   \<and> (length vs < 3
        \<and> chat_create api (DecidePrompt service loc platform vs) = ApiError e \<longrightarrow>
        decide_next_search api self service loc platform vs = stop)"
  by (simp add: decide_next_search_def stop_def)

text \<open>Three candidates and a configured oracle that would answer RELAX\_CONFIDENCE; one
  candidate and no oracle; one candidate and an oracle whose call fails.\<close>

lemma decide_next_search_stop_examples:
  "3 \<le> length [sweet_cakes_vendor, other_vendor, sweet_cakes_vendor]
   \<and> client \<lparr>client = True\<rparr>
   \<and> chat_create (llm_with ''{\"action\": \"RELAX_CONFIDENCE\"}'')
        (DecidePrompt ''cake'' ''Lagos'' ''instagram''
           [sweet_cakes_vendor, other_vendor, sweet_cakes_vendor])
       = Content ''{\"action\": \"RELAX_CONFIDENCE\"}''
   \<and> decide_next_search (llm_with ''{\"action\": \"RELAX_CONFIDENCE\"}'') \<lparr>client = True\<rparr>
         ''cake'' ''Lagos'' ''instagram''
         [sweet_cakes_vendor, other_vendor, sweet_cakes_vendor] = stop
   \<and> length [other_vendor] < 3 \<and> \<not> client \<lparr>client = False\<rparr>
   \<and> decide_next_search (llm_with ''{\"action\": \"RELAX_CONFIDENCE\"}'') \<lparr>client = False\<rparr>
         ''cake'' ''Lagos'' ''instagram'' [other_vendor] = stop
   \<and> chat_create llm_down (DecidePrompt ''cake'' ''Lagos'' ''instagram'' [other_vendor])
       = ApiError ''timeout''
   \<and> decide_next_search llm_down \<lparr>client = True\<rparr>
         ''cake'' ''Lagos'' ''instagram'' [other_vendor] = stop"
  using
    decide_next_search_stop [of "[sweet_cakes_vendor, other_vendor, sweet_cakes_vendor]"
      "llm_with ''{\"action\": \"RELAX_CONFIDENCE\"}''" "\<lparr>client = True\<rparr>"
      "''cake''" "''Lagos''" "''instagram''" "''timeout''"]
    decide_next_search_stop [of "[other_vendor]"
      "llm_with ''{\"action\": \"RELAX_CONFIDENCE\"}''" "\<lparr>client = False\<rparr>"
      "''cake''" "''Lagos''" "''instagram''" "''timeout''"]
    decide_next_search_stop [of "[other_vendor]" llm_down "\<lparr>client = True\<rparr>"
      "''cake''" "''Lagos''" "''instagram''" "''timeout''"]
  by (simp add: llm_with_def llm_down_def)

text \<open>C3 says that with fewer than three candidates \<open>decide_next_search\<close> answers STOP on
  any oracle failure. When the oracle's answer is not JSON, the call does not raise:
  \<^verbatim>\<open>_safe_json\<close> absorbs the parse error and \<open>decide_next_search\<close> returns its
  fallback dict, which names no action, instead of STOP.\<close>

theorem decide_next_search_unparseable_not_stop:
  "length [sweet_cakes_vendor] < 3 \<and> client \<lparr>client = True\<rparr>
   \<and> chat_create (llm_with ''I would expand the location.'')
        (DecidePrompt ''cake'' ''Lagos'' ''instagram'' [sweet_cakes_vendor])
       = Content ''I would expand the location.''
   \<and> json_loads (llm_with ''I would expand the location.'') ''I would expand the location.''
       = None
   \<and> decide_next_search (llm_with ''I would expand the location.'') \<lparr>client = True\<rparr>
         ''cake'' ''Lagos'' ''instagram'' [sweet_cakes_vendor]
       = JObj [(''explanation'', JStr ''I would expand the location.''),
               (''result_quality'', JStr ''unknown''),
               (''clarifying_question'', JStr ''NO_QUESTION'')]
   \<and> decide_next_search (llm_with ''I would expand the location.'') \<lparr>client = True\<rparr>
         ''cake'' ''Lagos'' ''instagram'' [sweet_cakes_vendor] \<noteq> stop
   \<and> py_get (decide_next_search (llm_with ''I would expand the location.'')
               \<lparr>client = True\<rparr> ''cake'' ''Lagos'' ''instagram'' [sweet_cakes_vendor])
         ''action'' = Inr None"
  by (simp add: decide_next_search_def llm_with_def safe_json_def stop_def py_get_def)

section \<open>Properties of the orchestrator\<close>

lemma valid_ids_ints:
  "valid_ids n (map JInt ids) = Inr (map JInt (filter (\<lambda>i. 0 \<le> i \<and> i < int n) ids))"
  by (induction ids) (auto simp: in_range_def)

lemma index_all_ints:
  "\<forall>i \<in> set ids. 0 \<le> i \<and> i < int (length xs) \<Longrightarrow>
     index_all xs (map JInt ids) = Inr (map (\<lambda>i. xs ! nat i) ids)"
  by (induction ids) (auto simp: py_index_def py_index_int_def Let_def)

lemma reorder_ints:
  assumes "map_of kvs ''ordered_vendor_ids'' = Some (JArr (map JInt ids))"
  shows "reorder ranked (JObj kvs) = Inr (reorder_by_valid_ids ranked ids)"
proof -
  let ?valid = "filter (\<lambda>i. 0 \<le> i \<and> i < int (length ranked)) ids"
  have "index_all ranked (map JInt ?valid) = Inr (map (\<lambda>i. ranked ! nat i) ?valid)"
    by (rule index_all_ints) simp
  then show ?thesis
    using assms
    by (simp add: reorder_def py_get_def py_iter_def valid_ids_ints reorder_by_valid_ids_def
        Let_def)
qed

lemma reorder_by_identity: "reorder_by_valid_ids xs (map int [0..<length xs]) = xs"
proof -
  have "filter (\<lambda>i. 0 \<le> i \<and> i < int (length xs)) (map int [0..<length xs])
        = map int [0..<length xs]"
    by (simp add: filter_map o_def)
  then show ?thesis
    by (simp add: reorder_by_valid_ids_def Let_def o_def map_nth)
qed

lemma reorder_no_ids:
  "map_of kvs ''ordered_vendor_ids'' = None \<Longrightarrow> reorder ranked (JObj kvs) = Inr ranked"
  by (simp add: reorder_def py_get_def py_iter_def)

text \<open>In the re-rank step, when the oracle answers a list of more than one candidate
  with an object whose \<^verbatim>\<open>ordered_vendor_ids\<close> is a list of integers, the ids outside
  \<open>[0, n)\<close> are dropped and the ids that remain give the new order; with no id left the
  order stays as it was.\<close>

lemma rerank_step_valid_ids:
  assumes "1 < length ranked" and "client self"
    and "chat_create api (RerankPrompt service (take 10 ranked)) = Content c"
    and "json_loads api c = Some (JObj kvs)"
    and "map_of kvs ''ordered_vendor_ids'' = Some (JArr (map JInt ids))"
  shows "map_sum (\<lambda>e. e) fst (rerank_step api self service ranked reasoning)
         = Inr (reorder_by_valid_ids ranked ids)"
  using assms reorder_ints [OF assms(5), of ranked]
  by (simp add: rerank_step_def rerank_vendors_def safe_json_def py_get_def Let_def)

text \<open>The order also stays when the oracle is not configured, when its call fails and
  when its answer is not JSON.\<close>

lemma rerank_step_oracle_unavailable:
  assumes "\<not> client self \<or> chat_create api (RerankPrompt service (take 10 ranked)) = ApiError e"
  shows "map_sum (\<lambda>e. e) fst (rerank_step api self service ranked reasoning) = Inr ranked"
proof -
  have "reorder ranked (JObj [(''ordered_vendor_ids'', identity_order ranked), (''reasoning'', r)])
        = Inr ranked" for r
    using reorder_ints [of "[(''ordered_vendor_ids'', identity_order ranked), (''reasoning'', r)]"
        "map int [0..<length ranked]" ranked]
    by (simp add: identity_order_def o_def reorder_by_identity)
  then show ?thesis
    using assms
    by (auto simp: rerank_step_def rerank_vendors_def py_get_def Let_def)
qed

lemma rerank_step_unparseable:
  assumes "1 < length ranked" and "client self"
    and "chat_create api (RerankPrompt service (take 10 ranked)) = Content c"
    and "json_loads api c = None"
  shows "rerank_step api self service ranked reasoning = Inr (ranked, reasoning)"
  using assms
  by (simp add: rerank_step_def rerank_vendors_def safe_json_def py_get_def Let_def
      reorder_no_ids truthy_def)

text \<open>Scenario D: the answer \<^verbatim>\<open>{"ordered_vendor_ids": [5, 0]}\<close> for two candidates
  leaves the first candidate alone.\<close>

lemma rerank_step_scenario_d:
  "1 < length [sweet_cakes_vendor, other_vendor] \<and> client \<lparr>client = True\<rparr>
   \<and> chat_create (llm_with [])
        (RerankPrompt ''cake'' (take 10 [sweet_cakes_vendor, other_vendor]))
       = Content ''{\"ordered_vendor_ids\": [5, 0]}''
   \<and> json_loads (llm_with []) ''{\"ordered_vendor_ids\": [5, 0]}''
       = Some (JObj [(''ordered_vendor_ids'', JArr [JInt 5, JInt 0])])
   \<and> map_of [(''ordered_vendor_ids'', JArr [JInt 5, JInt 0])] ''ordered_vendor_ids''
       = Some (JArr (map JInt [5, 0]))
   \<and> reorder_by_valid_ids [sweet_cakes_vendor, other_vendor] [5, 0] = [sweet_cakes_vendor]
   \<and> map_sum (\<lambda>e. e) fst
        (rerank_step (llm_with []) \<lparr>client = True\<rparr> ''cake''
           [sweet_cakes_vendor, other_vendor] [])
       = Inr [sweet_cakes_vendor]"
proof -
  have a: "1 < length [sweet_cakes_vendor, other_vendor]" by simp
  have b: "client \<lparr>client = True\<rparr>" by simp
  have c: "chat_create (llm_with [])
        (RerankPrompt ''cake'' (take 10 [sweet_cakes_vendor, other_vendor]))
       = Content ''{\"ordered_vendor_ids\": [5, 0]}''"
    by (simp add: llm_with_def)
  have d: "json_loads (llm_with []) ''{\"ordered_vendor_ids\": [5, 0]}''
       = Some (JObj [(''ordered_vendor_ids'', JArr [JInt 5, JInt 0])])"
    by (simp add: llm_with_def)
  have e: "map_of [(''ordered_vendor_ids'', JArr [JInt 5, JInt 0])] ''ordered_vendor_ids''
       = Some (JArr (map JInt [5, 0]))"
    by simp
  have f: "reorder_by_valid_ids [sweet_cakes_vendor, other_vendor] [5, 0] = [sweet_cakes_vendor]"
    by (simp add: reorder_by_valid_ids_def)
  show ?thesis
    using rerank_step_valid_ids [OF a b c d e, of "[]"] a b c d e f by simp
qed

text \<open>C5 says that for every oracle response the re-rank step drops the ids outside
  \<open>[0, n)\<close> and keeps the prior order when no valid id remains. For two candidates and an
  answer whose ids are the strings "1" and "0" the test \<^verbatim>\<open>0 <= i < len(ranked_vendors)\<close>
  raises \<^verbatim>\<open>TypeError\<close>, and for an answer that is the bare list \<^verbatim>\<open>[1, 0]\<close> the call
  \<^verbatim>\<open>rerank.get\<close> raises \<^verbatim>\<open>AttributeError\<close>; \<open>find_vendors\<close> raises in its first
  attempt in both cases, where it returns the two candidates re-ordered when the same ids
  come as integers in an object.\<close>

theorem rerank_raises_on_ill_typed_answer:
  "find_vendors_run
     (\<lambda>k. world_rerank ''{\"ordered_vendor_ids\": [\"1\", \"0\"]}''
             (Some (JObj [(''ordered_vendor_ids'', JArr [JStr ''1'', JStr ''0''])])))
     finder1 ''cake'' ''Lagos'' ''instagram'' 5 (3 / 10) = (1, Inl TypeError)
   \<and> find_vendors_run
       (\<lambda>k. world_rerank ''[1, 0]'' (Some (JArr [JInt 1, JInt 0])))
       finder1 ''cake'' ''Lagos'' ''instagram'' 5 (3 / 10) = (1, Inl AttributeError)
   \<and> map_sum (\<lambda>e. e) vendors
       (snd (find_vendors_run
          (\<lambda>k. world_rerank ''{\"ordered_vendor_ids\": [1, 0]}''
                  (Some (JObj [(''ordered_vendor_ids'', JArr [JInt 1, JInt 0])])))
          finder1 ''cake'' ''Lagos'' ''instagram'' 5 (3 / 10)))
     = Inr [lagos_bakes_vendor, sweet_cakes_vendor]"
  by code_simp

lemma rerank_step_agree:
  assumes "with_log \<longrightarrow> r1 = r2"
  shows "(case (rerank_step api self s ranked r1, rerank_step api self s ranked r2) of
            (Inl e, Inl e') \<Rightarrow> e = e'
          | (Inr (k, l), Inr (k', l')) \<Rightarrow> k = k' \<and> (with_log \<longrightarrow> l = l')
          | _ \<Rightarrow> False)"
proof (cases "1 < length ranked")
  case False
  then show ?thesis using assms by (simp add: rerank_step_def)
next
  case True
  define rr where "rr = rerank_vendors api self s ranked"
  show ?thesis
  proof (cases "reorder ranked rr")
    case (Inl e)
    then show ?thesis using True by (simp add: rerank_step_def rr_def [symmetric])
  next
    case (Inr k)
    show ?thesis
    proof (cases "py_get rr ''reasoning''")
      case (Inl e)
      then show ?thesis using True Inr by (simp add: rerank_step_def rr_def [symmetric])
    next
      case r: (Inr r)
      then show ?thesis
        using True Inr assms by (simp add: rerank_step_def rr_def [symmetric])
    qed
  qed
qed

lemma apply_decision_agree:
  "agree with_log a b \<Longrightarrow>
   agree with_log (apply_decision t action a) (apply_decision t action b)"
  by (simp add: agree_def apply_decision_def Let_def)


lemma attempt_body_agree:
  assumes "agree with_log a b"
  shows "agree_outcome with_log (attempt_body w self s t mr emc a)
           (attempt_body w self s t mr emc b)"
proof -
  define a1 where "a1 = (if t = ''visual'' then a\<lparr>current_platform := ''instagram''\<rparr> else a)"
  define b1 where "b1 = (if t = ''visual'' then b\<lparr>current_platform := ''instagram''\<rparr> else b)"
  have ab1: "agree with_log a1 b1"
    using assms by (simp add: a1_def b1_def agree_def)
  then have eqs: "current_platform a1 = current_platform b1"
    "current_location a1 = current_location b1"
    by (simp_all add: agree_def)
  have log: "with_log \<longrightarrow> final_reasoning a1 = final_reasoning b1"
    using ab1 by (simp add: agree_def)
  define sr where "sr = search_vendors (search w) (search_engine self) s
         (current_location b1) (current_platform b1)"
  define ev where "ev = collect_vendors w self s (current_location b1) emc mr []
         (py_take (mr * 3) sr)"
  define ranked0 where "ranked0 = rank_vendors ev"
  define ra where "ra = rerank_step (llm w) (reasoner self) s ranked0 (final_reasoning a1)"
  define rb where "rb = rerank_step (llm w) (reasoner self) s ranked0 (final_reasoning b1)"
  have rr: "(case (ra, rb) of
            (Inl e, Inl e') \<Rightarrow> e = e'
          | (Inr (k, l), Inr (k', l')) \<Rightarrow> k = k' \<and> (with_log \<longrightarrow> l = l')
          | _ \<Rightarrow> False)"
    unfolding ra_def rb_def by (rule rerank_step_agree) (rule log)
  have A: "attempt_body w self s t mr emc a =
     (if sr = [] then Break a1
      else if ev = [] then Break a1
      else case ra of
             Inl e \<Rightarrow> Raise e
           | Inr (ranked, reasoning) \<Rightarrow>
               (case py_get (decide_next_search (llm w) (reasoner self) s
                       (current_location b1) (current_platform b1) ranked) ''action'' of
                  Inl e \<Rightarrow> Raise e
                | Inr act \<Rightarrow>
                    if act = Some (JStr ''STOP'')
                    then Return \<lparr>vendors = ranked,
                            analysis = analyze_results (llm w) (reasoner self) s
                                         (current_location b1) ranked,
                            agent_reasoning = reasoning\<rparr>
                    else (case act of
                            None \<Rightarrow> Raise KeyError
                          | Some action \<Rightarrow>
                              Continue (apply_decision t action
                                (a1\<lparr>ranked_vendors := ranked,
                                    final_reasoning := reasoning\<rparr>)))))"
    unfolding attempt_body_def Let_def a1_def [symmetric] eqs sr_def [symmetric]
      ev_def [symmetric] ranked0_def [symmetric] ra_def [symmetric]
    by (simp add: eqs cong: sum.case_cong prod.case_cong option.case_cong if_cong)
  have B: "attempt_body w self s t mr emc b =
     (if sr = [] then Break b1
      else if ev = [] then Break b1
      else case rb of
             Inl e \<Rightarrow> Raise e
           | Inr (ranked, reasoning) \<Rightarrow>
               (case py_get (decide_next_search (llm w) (reasoner self) s
                       (current_location b1) (current_platform b1) ranked) ''action'' of
                  Inl e \<Rightarrow> Raise e
                | Inr act \<Rightarrow>
                    if act = Some (JStr ''STOP'')
                    then Return \<lparr>vendors = ranked,
                            analysis = analyze_results (llm w) (reasoner self) s
                                         (current_location b1) ranked,
                            agent_reasoning = reasoning\<rparr>
                    else (case act of
                            None \<Rightarrow> Raise KeyError
                          | Some action \<Rightarrow>
                              Continue (apply_decision t action
                                (b1\<lparr>ranked_vendors := ranked,
                                    final_reasoning := reasoning\<rparr>)))))"
    unfolding attempt_body_def Let_def b1_def [symmetric] sr_def [symmetric]
      ev_def [symmetric] ranked0_def [symmetric] rb_def [symmetric]
    by (simp cong: sum.case_cong prod.case_cong option.case_cong if_cong)
  have st2: "agree with_log (apply_decision t action (a1\<lparr>ranked_vendors := k, final_reasoning := l\<rparr>))
               (apply_decision t action (b1\<lparr>ranked_vendors := k, final_reasoning := l'\<rparr>))"
    if "with_log \<longrightarrow> l = l'" for action k l l'
    using ab1 that by (intro apply_decision_agree) (simp add: agree_def)
  show ?thesis
  proof (cases ra)
    case (Inl e)
    then have "rb = Inl e"
      using rr by (cases rb) auto
    with Inl show ?thesis
      unfolding A B using ab1 by simp
  next
    case (Inr p)
    obtain k l where p: "p = (k, l)" by (cases p)
    obtain l' where rb: "rb = Inr (k, l')" and ll: "with_log \<longrightarrow> l = l'"
      using rr Inr p by (cases rb) auto
    show ?thesis
      unfolding A B Inr p rb using ab1 ll st2 [OF ll]
      by (simp split: sum.split option.split)
  qed
qed


lemma find_vendors_loop_agree:
  assumes "agree with_log a b"
  shows "fst (find_vendors_loop ws self s t mr emc attempt a)
           = fst (find_vendors_loop ws self s t mr emc attempt b)
         \<and> vendors_and_analysis (snd (find_vendors_loop ws self s t mr emc attempt a))
           = vendors_and_analysis (snd (find_vendors_loop ws self s t mr emc attempt b))
         \<and> (with_log \<longrightarrow> find_vendors_loop ws self s t mr emc attempt a
                          = find_vendors_loop ws self s t mr emc attempt b)"
  using assms
proof (induction "max_attempts - attempt" arbitrary: attempt a b)
  case 0
  then have fin: "\<not> attempt < max_attempts" by simp
  show ?case
    using "0.prems" fin
    by (subst (1 2 3 4 5 6) find_vendors_loop.simps)
       (simp add: fallback_result_def agree_def vendors_and_analysis_def)
next
  case (Suc n)
  then have more: "attempt < max_attempts" by simp
  have rel: "agree_outcome with_log (attempt_body (ws (attempt + 1)) self s t mr emc a)
               (attempt_body (ws (attempt + 1)) self s t mr emc b)"
    using Suc.prems by (rule attempt_body_agree)
  have n: "n = max_attempts - (attempt + 1)"
    using Suc.hyps(2) by simp
  show ?case
  proof (cases "attempt_body (ws (attempt + 1)) self s t mr emc a")
    case (Continue a')
    then obtain b' where b': "attempt_body (ws (attempt + 1)) self s t mr emc b = Continue b'"
      and ab: "agree with_log a' b'"
      using rel by (cases "attempt_body (ws (attempt + 1)) self s t mr emc b") auto
    show ?thesis
      using Suc.hyps(1) [OF n ab] more Continue b'
      by (subst (1 2 3 4 5 6) find_vendors_loop.simps) simp
  next
    case (Break a')
    then obtain b' where b': "attempt_body (ws (attempt + 1)) self s t mr emc b = Break b'"
      and ab: "agree with_log a' b'"
      using rel by (cases "attempt_body (ws (attempt + 1)) self s t mr emc b") auto
    show ?thesis
      using more Break b' ab
      by (subst (1 2 3 4 5 6) find_vendors_loop.simps)
         (simp add: fallback_result_def agree_def vendors_and_analysis_def)
  next
    case (Return r)
    then obtain r' where b': "attempt_body (ws (attempt + 1)) self s t mr emc b = Return r'"
      and ab: "vendors r = vendors r'" "analysis r = analysis r'"
        "with_log \<longrightarrow> agent_reasoning r = agent_reasoning r'"
      using rel by (cases "attempt_body (ws (attempt + 1)) self s t mr emc b") auto
    show ?thesis
      using more Return b' ab
      by (subst (1 2 3 4 5 6) find_vendors_loop.simps)
         (simp add: vendors_and_analysis_def)
  next
    case (Raise e)
    then have b': "attempt_body (ws (attempt + 1)) self s t mr emc b = Raise e"
      using rel by (cases "attempt_body (ws (attempt + 1)) self s t mr emc b") auto
    show ?thesis
      using more Raise b'
      by (subst (1 2 3 4 5 6) find_vendors_loop.simps)
         (simp add: vendors_and_analysis_def)
  qed
qed

text \<open>C10. The loop passes \<open>effective_min_confidence\<close> on unchanged and never reads
  \<^verbatim>\<open>current_min_confidence\<close>: started in a state with any other value of it, the loop
  returns the same number of attempts and the same result. So applying the decision
  RELAX\_CONFIDENCE to a state, which changes that variable and the reasoning log only,
  changes neither the number of attempts nor the exception, the vendors or the analysis
  that the loop yields from there.\<close>

theorem relax_confidence_frame:
  "find_vendors_loop ws self s t mr emc attempt (st\<lparr>current_min_confidence := c\<rparr>)
     = find_vendors_loop ws self s t mr emc attempt st
   \<and> fst (find_vendors_loop ws self s t mr emc attempt
            (apply_decision t (JStr ''RELAX_CONFIDENCE'') st))
     = fst (find_vendors_loop ws self s t mr emc attempt st)
   \<and> vendors_and_analysis (snd (find_vendors_loop ws self s t mr emc attempt
            (apply_decision t (JStr ''RELAX_CONFIDENCE'') st)))
     = vendors_and_analysis (snd (find_vendors_loop ws self s t mr emc attempt st))"
proof -
  have 1: "agree True (st\<lparr>current_min_confidence := c\<rparr>) st"
    by (simp add: agree_def)
  have 2: "agree False (apply_decision t (JStr ''RELAX_CONFIDENCE'') st) st"
    by (simp add: agree_def apply_decision_def)
  show ?thesis
    using find_vendors_loop_agree [OF 1, of ws self s t mr emc attempt]
      find_vendors_loop_agree [OF 2, of ws self s t mr emc attempt]
    by simp
qed

text \<open>The loop makes at most \<open>max_attempts\<close> passes; being a total function, it always
  ends, with a result or with an exception.\<close>

lemma find_vendors_loop_attempts:
  "fst (find_vendors_loop ws self s t mr emc attempt st) \<le> max attempt max_attempts"
proof (induction "max_attempts - attempt" arbitrary: attempt st)
  case 0
  then show ?case
    by (subst find_vendors_loop.simps) simp
next
  case (Suc n)
  then have more: "attempt < max_attempts" and n: "n = max_attempts - (attempt + 1)"
    by simp_all
  show ?case
    using Suc.hyps(1) [OF n] more
    by (subst find_vendors_loop.simps) (auto split: outcome.split simp: max_def)
qed

lemma find_vendors_at_most_two_attempts:
  "fst (find_vendors_run ws self service loc platform mr mc) \<le> 2"
  using find_vendors_loop_attempts [of ws self service _ mr _ 0]
  by (simp add: find_vendors_run_def Let_def max_attempts_def)

text \<open>Without a configured oracle no pass through the loop body raises or asks for another
  attempt, and the call returns a result.\<close>

lemma attempt_body_without_oracle:
  assumes "\<not> client (reasoner self)"
  shows "(\<exists>st'. attempt_body w self s t mr emc st = Break st')
         \<or> (\<exists>r. attempt_body w self s t mr emc st = Return r)"
proof -
  have d: "py_get (decide_next_search (llm w) (reasoner self) s l p vs) ''action''
           = Inr (Some (JStr ''STOP''))" for l p vs
    using assms by (simp add: decide_next_search_def py_get_def)
  have r: "\<exists>log. rerank_step (llm w) (reasoner self) s ranked reasoning = Inr (ranked, log)"
    for ranked reasoning
    using rerank_step_oracle_unavailable [of "reasoner self" "llm w" s ranked _ reasoning] assms
    by (cases "rerank_step (llm w) (reasoner self) s ranked reasoning") auto
  define st1 where "st1 = (if t = ''visual'' then st\<lparr>current_platform := ''instagram''\<rparr> else st)"
  define sr where "sr = search_vendors (search w) (search_engine self) s
         (current_location st1) (current_platform st1)"
  define ev where "ev = collect_vendors w self s (current_location st1) emc mr []
         (py_take (mr * 3) sr)"
  obtain log where log: "rerank_step (llm w) (reasoner self) s (rank_vendors ev)
         (final_reasoning st1) = Inr (rank_vendors ev, log)"
    using r by blast
  show ?thesis
    unfolding attempt_body_def Let_def st1_def [symmetric] sr_def [symmetric]
      ev_def [symmetric]
    by (simp add: log d)
qed

lemma find_vendors_without_oracle_returns:
  assumes "\<not> client (reasoner self)"
  shows "\<exists>r. find_vendors ws self service loc platform mr mc = Inr r"
proof -
  have "\<exists>r. snd (find_vendors_loop ws self service t mr emc 0 st) = Inr r" for t emc st
    using attempt_body_without_oracle [OF assms, of "ws (0 + 1)" service t mr emc st]
    by (subst find_vendors_loop.simps) (auto simp: max_attempts_def)
  then show ?thesis
    by (simp add: find_vendors_def find_vendors_run_def Let_def)
qed

text \<open>C2 says that \<open>find_vendors\<close> returns for every sequence of oracle answers and never
  raises. The attempts are bounded (above), but an answer to the decision request that is
  not JSON makes \<^verbatim>\<open>_safe_json\<close> return its fallback dict, which has no key
  \<^verbatim>\<open>action\<close>, and \<^verbatim>\<open>decision["action"]\<close> raises \<^verbatim>\<open>KeyError\<close> in the first
  attempt.\<close>

theorem find_vendors_raises_on_unparseable_decision:
  "find_vendors_run (\<lambda>k. world_with ''I would expand the location.'') finder1
     ''cake'' ''Lagos'' ''instagram'' 5 (3 / 10) = (1, Inl KeyError)"
  by code_simp

text \<open>With an oracle that answers RELAX\_CONFIDENCE in every attempt the call makes two
  attempts and returns the fallback result with the vendors ranked last.\<close>

lemma find_vendors_exhausts_attempts:
  "find_vendors_run (\<lambda>k. world_with ''{\"action\": \"RELAX_CONFIDENCE\"}'') finder1
     ''cake'' ''Lagos'' ''instagram'' 5 (3 / 10)
   = (2, Inr (fallback_result
        \<lparr>current_platform = ''instagram'', current_location = ''Lagos'',
         current_min_confidence = 1 / 10,
         final_reasoning = [JStr ''Relaxed confidence threshold.'',
                            JStr ''Relaxed confidence threshold.''],
         ranked_vendors = [sweet_cakes_vendor]\<rparr>))"
  by code_simp

end
